theory Spec2Isabelle
  imports Complex_Main "HOL-Library.Multiset"
begin

section \<open>Print Preview Studio: sheet layout and 3D stack synthesis\<close>

text \<open>
  The repository holds three variants of one Vue component. \<^verbatim>\<open>src/App.vue\<close> builds a
  cascade of at most 24 sheets; \<^verbatim>\<open>unnamed/part_000\<close> builds a grid of at most 100 sheets
  and knows a page orientation; \<^verbatim>\<open>unnamed/part_001\<close> has the same counters and no 3D
  scene. The reactive state, the computed counters, \<^verbatim>\<open>loadFile\<close> and \<^verbatim>\<open>disposeStack\<close> are
  the same text in the variants that have them.

  JavaScript numbers are modelled as follows: the page and copy counts and the loop
  counter are \<^typ>\<open>int\<close>; lengths, angles and positions are \<^typ>\<open>real\<close> (IEEE rounding is
  not modelled); the one place where an integer computation can yield \<^verbatim>\<open>NaN\<close>
  (\<^verbatim>\<open>i % 0\<close>) is written out.
\<close>

subsection \<open>Reactive state\<close>

datatype DuplexMode = Simplex | Duplex
datatype FlipMode = Long | Short
datatype OrientationMode = Portrait | Landscape

record PageRender =
  url :: string
  width :: real
  height :: real

text \<open>A \<^verbatim>\<open>File\<close> as far as the component reads it: its name and its MIME type.\<close>

record File =
  file_name :: string
  file_type :: string

text \<open>
  The \<^verbatim>\<open>ref\<close>s of the component. \<^verbatim>\<open>orientation\<close> exists in the grid variant only;
  the cascade variant never reads it.
\<close>

record app =
  file_ref :: "File option"
  isLoading :: bool
  loadError :: "string option"
  maxPageCount :: "int option"
  pageRenders :: "PageRender list"
  pages :: int
  copies :: int
  duplex :: DuplexMode
  flip :: FlipMode
  orientation :: OrientationMode

subsection \<open>Computed counters\<close>

definition isDuplex :: "app \<Rightarrow> bool" where
  "isDuplex st = (duplex st = Duplex)"

definition isLandscape :: "app \<Rightarrow> bool" where
  "isLandscape st = (orientation st = Landscape)"

text \<open>\<^verbatim>\<open>isDuplex.value ? Math.ceil(pages.value / 2) : pages.value\<close>\<close>

definition sheetsPerCopy :: "app \<Rightarrow> int" where
  "sheetsPerCopy st = (if isDuplex st then \<lceil>real_of_int (pages st) / 2\<rceil> else pages st)"

definition totalSheets :: "app \<Rightarrow> int" where
  "totalSheets st = sheetsPerCopy st * copies st"

definition totalSides :: "app \<Rightarrow> int" where
  "totalSides st = pages st * copies st"

text \<open>\<^verbatim>\<open>maxRenderedSheets\<close> is 24 in \<^verbatim>\<open>src/App.vue\<close> and \<^verbatim>\<open>part_001\<close>, 100 in \<^verbatim>\<open>part_000\<close>.\<close>

definition maxRenderedSheets_cascade :: int where
  "maxRenderedSheets_cascade = 24"

definition maxRenderedSheets_grid :: int where
  "maxRenderedSheets_grid = 100"

definition renderedSheets :: "int \<Rightarrow> app \<Rightarrow> int" where
  "renderedSheets maxRenderedSheets st = min (totalSheets st) maxRenderedSheets"

definition hiddenSheets :: "int \<Rightarrow> app \<Rightarrow> int" where
  "hiddenSheets maxRenderedSheets st =
     max (totalSheets st - renderedSheets maxRenderedSheets st) 0"

definition hasRenderedPages :: "app \<Rightarrow> bool" where
  "hasRenderedPages st = (length (pageRenders st) > 0)"

text \<open>
  \<^verbatim>\<open>unnamed/part_001\<close> draws its sheets from
  \<^verbatim>\<open>Array.from({ length: renderedSheets.value }, (_, i) => i)\<close>; a length that is not
  positive gives the empty array.
\<close>

definition sheetIndices :: "app \<Rightarrow> int list" where
  "sheetIndices st = map int [0..<nat (renderedSheets maxRenderedSheets_cascade st)]"

subsection \<open>JavaScript arithmetic used by the loop\<close>

text \<open>A number that an integer computation of the component can produce: an integer or \<^verbatim>\<open>NaN\<close>.\<close>

datatype number = Num int | NaN

text \<open>
  \<^verbatim>\<open>a % b\<close> for integers with \<open>b \<noteq> 0\<close>: the remainder of the truncated division, which
  has the sign of the dividend. \<^verbatim>\<open>a % 0\<close> is \<^verbatim>\<open>NaN\<close>.
\<close>

definition js_rem :: "int \<Rightarrow> int \<Rightarrow> int" where
  "js_rem a b = sgn a * (\<bar>a\<bar> mod \<bar>b\<bar>)"

definition js_mod :: "int \<Rightarrow> int \<Rightarrow> number" where
  "js_mod a b = (if b = 0 then NaN else Num (js_rem a b))"

text \<open>Arithmetic on a possibly-\<^verbatim>\<open>NaN\<close> number keeps \<^verbatim>\<open>NaN\<close>; every comparison with \<^verbatim>\<open>NaN\<close> is false.\<close>

fun number_map :: "(int \<Rightarrow> int) \<Rightarrow> number \<Rightarrow> number" where
  "number_map f (Num k) = Num (f k)"
| "number_map f NaN = NaN"

fun number_less :: "number \<Rightarrow> int \<Rightarrow> bool" where
  "number_less (Num k) n = (k < n)"
| "number_less NaN n = False"

definition degToRad :: "real \<Rightarrow> real" where
  "degToRad degrees = degrees * (pi / 180)"

text \<open>\<^verbatim>\<open>String(n)\<close> for an integer: its decimal digits.\<close>

definition digit_char :: "nat \<Rightarrow> char" where
  "digit_char d = ''0123456789'' ! d"

fun String_nat :: "nat \<Rightarrow> string" where
  "String_nat n =
     (if n < 10 then [digit_char n] else String_nat (n div 10) @ [digit_char (n mod 10)])"

declare String_nat.simps [simp del]

definition String :: "int \<Rightarrow> string" where
  "String k = (if k < 0 then CHR ''-'' # String_nat (nat (- k)) else String_nat (nat k))"

text \<open>\<^verbatim>\<open>for (let i = i0; i < n; i += 1) body(i)\<close>, threading the state.\<close>

function forLoop :: "(int \<Rightarrow> 's \<Rightarrow> 's) \<Rightarrow> int \<Rightarrow> int \<Rightarrow> 's \<Rightarrow> 's" where
  "forLoop body n i s = (if i < n then forLoop body n (i + 1) (body i s) else s)"
  by pat_completeness auto
termination
  by (relation "measure (\<lambda>(body, n, i, s). nat (n - i))") auto

declare forLoop.simps [simp del]

subsection \<open>The scene: meshes, groups and disposable resources\<close>

text \<open>
  What the component allocates and must release: textures, materials and geometries.
  A resource is identified by the order of its allocation.
\<close>

datatype kind = Texture | Material | Geometry

type_synonym resource = "nat \<times> kind"

record texture =
  tex_id :: nat
  tex_url :: string
  tex_rotation :: real

record material =
  mat_id :: nat
  color :: nat
  map_tex :: "texture option"

record planeGeometry =
  geo_id :: nat
  geo_width :: real
  geo_height :: real

record mesh =
  geometry :: planeGeometry
  material :: material
  mesh_position_z :: real
  mesh_rotation_y :: real

record sprite =
  sprite_text :: string
  sprite_texture :: nat
  sprite_material :: nat
  sprite_position :: "real \<times> real \<times> real"
  sprite_scale :: "real \<times> real \<times> real"
  renderOrder :: int

record sheetGroup =
  frontMesh :: mesh
  backMesh :: mesh
  label :: "sprite option"
  position :: "real \<times> real \<times> real"
  rotation_x :: real

text \<open>
  The module-level variables of the component. \<open>scene_ready\<close> says that \<^verbatim>\<open>scene\<close> is not
  null; \<open>stackGroup\<close> is \<open>None\<close> for null and otherwise the children of the group.
  \<open>canvas2d\<close> says whether \<^verbatim>\<open>getContext("2d")\<close> yields a context. The last three fields
  record what the scene library was asked to do: the next fresh identity, every
  resource constructed, and every \<^verbatim>\<open>dispose()\<close> call, in order.
\<close>

record scene =
  scene_ready :: bool
  stackGroup :: "sheetGroup list option"
  disposable :: "resource list"
  canvas2d :: bool
  nextId :: nat
  allocated :: "resource list"
  disposed :: "resource list"

definition newResource :: "kind \<Rightarrow> scene \<Rightarrow> nat \<times> scene" where
  "newResource k s =
     (nextId s, s\<lparr>nextId := Suc (nextId s), allocated := allocated s @ [(nextId s, k)]\<rparr>)"

definition push :: "resource \<Rightarrow> scene \<Rightarrow> scene" where
  "push r s = s\<lparr>disposable := disposable s @ [r]\<rparr>"

definition dispose :: "resource \<Rightarrow> scene \<Rightarrow> scene" where
  "dispose r s = s\<lparr>disposed := disposed s @ [r]\<rparr>"

text \<open>\<^verbatim>\<open>while (children.length > 0) { children.pop() ... }\<close>\<close>

fun popChildren :: "'a list \<Rightarrow> 'a list" where
  "popChildren [] = []"
| "popChildren (x # xs) = popChildren (butlast (x # xs))"

definition disposeStack :: "scene \<Rightarrow> scene" where
  "disposeStack s =
     (let s1 = fold dispose (disposable s) s;
          s2 = s1\<lparr>disposable := []\<rparr>
      in case stackGroup s2 of
           None \<Rightarrow> s2
         | Some children \<Rightarrow> s2\<lparr>stackGroup := Some (popChildren children)\<rparr>)"

definition createTexture :: "string \<Rightarrow> real \<Rightarrow> scene \<Rightarrow> texture \<times> scene" where
  "createTexture u rotation s =
     (let (tid, s1) = newResource Texture s;
          texture = \<lparr>tex_id = tid, tex_url = u, tex_rotation = rotation\<rparr>
      in (texture, push (tid, Texture) s1))"

text \<open>
  \<^verbatim>\<open>url ? ... : ...\<close>: null and the empty string are falsy. The texture is created while
  the constructor's argument is evaluated, before the material exists.
\<close>

fun truthy :: "string option \<Rightarrow> bool" where
  "truthy None = False"
| "truthy (Some u) = (u \<noteq> [])"

definition createPageMaterial :: "string option \<Rightarrow> real \<Rightarrow> scene \<Rightarrow> material \<times> scene" where
  "createPageMaterial u rotation s =
     (let (m, s1) = (case u of
                       None \<Rightarrow> (None, s)
                     | Some v \<Rightarrow>
                         if v \<noteq> [] then (let (t, s') = createTexture v rotation s in (Some t, s'))
                         else (None, s));
          (mid, s2) = newResource Material s1;
          mat = \<lparr>mat_id = mid, color = (if truthy u then 16777215 else 15857145), map_tex = m\<rparr>
      in (mat, push (mid, Material) s2))"

text \<open>Only in the grid variant. Nothing is allocated when no 2D context is available.\<close>

definition createLabelSprite :: "string \<Rightarrow> scene \<Rightarrow> sprite option \<times> scene" where
  "createLabelSprite txt s =
     (if \<not> canvas2d s then (None, s)
      else
        (let (tid, s1) = newResource Texture s;
             s2 = push (tid, Texture) s1;
             (mid, s3) = newResource Material s2;
             s4 = push (mid, Material) s3
         in (Some \<lparr>sprite_text = txt, sprite_texture = tid, sprite_material = mid,
                   sprite_position = (0, 0, 0), sprite_scale = (1, 1, 1), renderOrder = 0\<rparr>,
             s4)))"

text \<open>\<^verbatim>\<open>stackGroup.add(sheetGroup)\<close>; \<^verbatim>\<open>buildStack\<close> has checked that the group is not null.\<close>

definition add :: "sheetGroup \<Rightarrow> scene \<Rightarrow> scene" where
  "add g s = (case stackGroup s of
                None \<Rightarrow> s
              | Some children \<Rightarrow> s\<lparr>stackGroup := Some (children @ [g])\<rparr>)"

subsection \<open>Front and back page of a sheet (the same text in both 3D variants)\<close>

text \<open>\<^verbatim>\<open>const pageCount = Math.max(pages.value, 1)\<close>\<close>

definition pageCount :: "app \<Rightarrow> int" where
  "pageCount st = max (pages st) 1"

text \<open>\<^verbatim>\<open>const sheetIndex = i % sheetsPerCopy.value\<close>\<close>

definition sheetIndex :: "app \<Rightarrow> int \<Rightarrow> number" where
  "sheetIndex st i = js_mod i (sheetsPerCopy st)"

definition frontPage :: "app \<Rightarrow> int \<Rightarrow> number" where
  "frontPage st i =
     (if isDuplex st then number_map (\<lambda>k. k * 2) (sheetIndex st i) else sheetIndex st i)"

text \<open>\<open>None\<close> is \<^verbatim>\<open>null\<close>.\<close>

definition backPage :: "app \<Rightarrow> int \<Rightarrow> number option" where
  "backPage st i =
     (if isDuplex st then Some (number_map (\<lambda>k. k * 2 + 1) (sheetIndex st i)) else None)"

definition frontIndex :: "app \<Rightarrow> int \<Rightarrow> number option" where
  "frontIndex st i =
     (if number_less (frontPage st i) (pageCount st) then Some (frontPage st i) else None)"

definition backIndex :: "app \<Rightarrow> int \<Rightarrow> number option" where
  "backIndex st i =
     (case backPage st i of
        None \<Rightarrow> None
      | Some b \<Rightarrow> if number_less b (pageCount st) then Some b else None)"

text \<open>
  \<^verbatim>\<open>index !== null ? pageRenders.value[index]?.url ?? null : null\<close>: an index outside the
  array reads \<^verbatim>\<open>undefined\<close>, which becomes \<^verbatim>\<open>null\<close>.
\<close>

fun urlAt :: "PageRender list \<Rightarrow> number option \<Rightarrow> string option" where
  "urlAt rs None = None"
| "urlAt rs (Some NaN) = None"
| "urlAt rs (Some (Num k)) =
     (if 0 \<le> k \<and> k < int (length rs) then Some (url (rs ! nat k)) else None)"

definition frontUrl :: "app \<Rightarrow> int \<Rightarrow> string option" where
  "frontUrl st i = urlAt (pageRenders st) (frontIndex st i)"

definition backUrl :: "app \<Rightarrow> int \<Rightarrow> string option" where
  "backUrl st i = urlAt (pageRenders st) (backIndex st i)"

text \<open>\<^verbatim>\<open>pageDimensions[0]\<close>, with the fallback page when nothing is loaded.\<close>

definition base :: "app \<Rightarrow> PageRender" where
  "base st = (case pageRenders st of
                [] \<Rightarrow> \<lparr>url = [], width = 1, height = 1.414\<rparr>
              | p # _ \<Rightarrow> p)"

definition planeHeight :: real where
  "planeHeight = 2.6"

subsection \<open>\<^verbatim>\<open>buildStack\<close> of \<^verbatim>\<open>src/App.vue\<close>: the cascade\<close>

definition planeWidth_cascade :: "app \<Rightarrow> real" where
  "planeWidth_cascade st = planeHeight * (width (base st) / height (base st))"

definition sheetDepth :: real where
  "sheetDepth = 0.03"

definition backRotation_cascade :: "app \<Rightarrow> real" where
  "backRotation_cascade st = (if flip st = Short then pi else 0)"

text \<open>One turn of the loop.\<close>

definition buildSheet_cascade :: "app \<Rightarrow> int \<Rightarrow> scene \<Rightarrow> scene" where
  "buildSheet_cascade st i s =
     (let (gid, s1) = newResource Geometry s;
          geo = \<lparr>geo_id = gid, geo_width = planeWidth_cascade st, geo_height = planeHeight\<rparr>;
          s2 = push (gid, Geometry) s1;
          (frontMaterial, s3) = createPageMaterial (frontUrl st i) 0 s2;
          (backMaterial, s4) = createPageMaterial (backUrl st i) (backRotation_cascade st) s3;
          front = \<lparr>geometry = geo, material = frontMaterial,
                   mesh_position_z = real_of_int i * sheetDepth, mesh_rotation_y = 0\<rparr>;
          back = \<lparr>geometry = geo, material = backMaterial,
                  mesh_position_z = real_of_int i * sheetDepth - 0.001, mesh_rotation_y = pi\<rparr>;
          g = \<lparr>frontMesh = front, backMesh = back, label = None,
               position = (0, - real_of_int i * 0.015, 0),
               rotation_x = degToRad (6 + real_of_int i * 0.2)\<rparr>
      in add g s4)"

definition buildStack_cascade :: "app \<Rightarrow> scene \<Rightarrow> scene" where
  "buildStack_cascade st s =
     (if \<not> scene_ready s \<or> stackGroup s = None then s
      else
        (let s1 = disposeStack s;
             sheets = totalSheets st;
             renderCount = min sheets maxRenderedSheets_cascade
         in forLoop (buildSheet_cascade st) renderCount 0 s1))"

subsection \<open>\<^verbatim>\<open>buildStack\<close> of \<^verbatim>\<open>unnamed/part_000\<close>: the grid, with orientation\<close>

definition aspect :: "app \<Rightarrow> real" where
  "aspect st = width (base st) / height (base st)"

definition isSourceLandscape :: "app \<Rightarrow> bool" where
  "isSourceLandscape st = (aspect st \<ge> 1)"

definition targetAspect :: "app \<Rightarrow> real" where
  "targetAspect st =
     (if isLandscape st then max (aspect st) (1 / aspect st)
      else min (aspect st) (1 / aspect st))"

definition planeWidth_grid :: "app \<Rightarrow> real" where
  "planeWidth_grid st = planeHeight * targetAspect st"

definition renderCount_grid :: "app \<Rightarrow> int" where
  "renderCount_grid st = min (totalSheets st) maxRenderedSheets_grid"

definition spacingX :: "app \<Rightarrow> real" where
  "spacingX st = planeWidth_grid st * 1.25"

definition spacingZ :: real where
  "spacingZ = planeHeight * 1.5"

definition columns :: "app \<Rightarrow> int" where
  "columns st = min 10 (max 1 (renderCount_grid st))"

definition rows :: "app \<Rightarrow> int" where
  "rows st = \<lceil>real_of_int (renderCount_grid st) / real_of_int (columns st)\<rceil>"

definition totalWidth :: "app \<Rightarrow> real" where
  "totalWidth st = real_of_int (columns st - 1) * spacingX st"

definition totalDepth :: "app \<Rightarrow> real" where
  "totalDepth st = real_of_int (rows st - 1) * spacingZ"

definition effectiveFlip :: "app \<Rightarrow> FlipMode" where
  "effectiveFlip st =
     (if isLandscape st then (if flip st = Long then Short else Long) else flip st)"

definition orientationRotation :: "app \<Rightarrow> real" where
  "orientationRotation st = (if isLandscape st = isSourceLandscape st then 0 else pi / 2)"

definition backRotation_grid :: "app \<Rightarrow> real" where
  "backRotation_grid st = (if effectiveFlip st = Short then pi else 0) + orientationRotation st"

text \<open>
  \<^verbatim>\<open>i % columns\<close> and \<^verbatim>\<open>Math.floor(i / columns)\<close>; \<open>columns\<close> is at least 1 by its
  definition, so the remainder is never \<^verbatim>\<open>NaN\<close>.
\<close>

definition col :: "app \<Rightarrow> int \<Rightarrow> int" where
  "col st i = js_rem i (columns st)"

definition row :: "app \<Rightarrow> int \<Rightarrow> int" where
  "row st i = \<lfloor>real_of_int i / real_of_int (columns st)\<rfloor>"

definition sheet_x :: "app \<Rightarrow> int \<Rightarrow> real" where
  "sheet_x st i = real_of_int (col st i) * spacingX st - totalWidth st / 2"

definition sheet_z :: "app \<Rightarrow> int \<Rightarrow> real" where
  "sheet_z st i = totalDepth st / 2 - real_of_int (row st i) * spacingZ"

definition buildSheet_grid :: "app \<Rightarrow> int \<Rightarrow> scene \<Rightarrow> scene" where
  "buildSheet_grid st i s =
     (let (gid, s1) = newResource Geometry s;
          geo = \<lparr>geo_id = gid, geo_width = planeWidth_grid st, geo_height = planeHeight\<rparr>;
          s2 = push (gid, Geometry) s1;
          (frontMaterial, s3) = createPageMaterial (frontUrl st i) (orientationRotation st) s2;
          (backMaterial, s4) = createPageMaterial (backUrl st i) (backRotation_grid st) s3;
          front = \<lparr>geometry = geo, material = frontMaterial,
                   mesh_position_z = 0.01, mesh_rotation_y = 0\<rparr>;
          back = \<lparr>geometry = geo, material = backMaterial,
                  mesh_position_z = - 0.01, mesh_rotation_y = pi\<rparr>;
          (lbl, s5) = createLabelSprite (String (i + 1)) s4;
          lbl' = map_option (\<lambda>l. l\<lparr>sprite_position := (0, - planeHeight * 0.62, 0.05),
                                    sprite_scale := (0.9, 0.35, 1),
                                    renderOrder := 5\<rparr>) lbl;
          g = \<lparr>frontMesh = front, backMesh = back, label = lbl',
               position = (sheet_x st i, 0, sheet_z st i),
               rotation_x = degToRad (- 18)\<rparr>
      in add g s5)"

definition buildStack_grid :: "app \<Rightarrow> scene \<Rightarrow> scene" where
  "buildStack_grid st s =
     (if \<not> scene_ready s \<or> stackGroup s = None then s
      else
        (let s1 = disposeStack s;
             renderCount = renderCount_grid st
         in forLoop (buildSheet_grid st) renderCount 0 s1))"

subsection \<open>Life cycle of the component\<close>

text \<open>The module-level variables before the component is mounted.\<close>

definition scene0 :: "bool \<Rightarrow> scene" where
  "scene0 ctx = \<lparr>scene_ready = False, stackGroup = None, disposable = [], canvas2d = ctx,
                 nextId = 0, allocated = [], disposed = []\<rparr>"

text \<open>
  \<^verbatim>\<open>initScene\<close> as far as the stack is concerned: nothing happens without the preview
  element; otherwise the scene and an empty \<^verbatim>\<open>stackGroup\<close> are created.
\<close>

definition initScene :: "bool \<Rightarrow> scene \<Rightarrow> scene" where
  "initScene previewRef s =
     (if \<not> previewRef then s else s\<lparr>scene_ready := True, stackGroup := Some []\<rparr>)"

text \<open>
  \<^verbatim>\<open>onMounted\<close>, the watchers (each runs \<^verbatim>\<open>buildStack\<close> on the state of the moment) and
  \<^verbatim>\<open>onBeforeUnmount\<close>, for a given \<^verbatim>\<open>buildStack\<close>.
\<close>

definition onMounted :: "(app \<Rightarrow> scene \<Rightarrow> scene) \<Rightarrow> bool \<Rightarrow> app \<Rightarrow> scene \<Rightarrow> scene" where
  "onMounted buildStack previewRef st s = buildStack st (initScene previewRef s)"

definition rebuilds :: "(app \<Rightarrow> scene \<Rightarrow> scene) \<Rightarrow> app list \<Rightarrow> scene \<Rightarrow> scene" where
  "rebuilds buildStack sts s = fold buildStack sts s"

definition onBeforeUnmount :: "scene \<Rightarrow> scene" where
  "onBeforeUnmount s = disposeStack s"

text \<open>The resources constructed and not yet disposed of.\<close>

definition unreleased :: "scene \<Rightarrow> resource list" where
  "unreleased s = filter (\<lambda>r. count_list (disposed s) r = 0) (allocated s)"

subsection \<open>File intake\<close>

text \<open>
  What a \<^verbatim>\<open>catch\<close> can receive: an \<^verbatim>\<open>Error\<close> with its message, or any other value
  (the image element rejects with an event).
\<close>

datatype thrown = Error string | NotAnError

text \<open>
  The decoders are libraries outside the repository; their outcomes are parameters.
  A PDF document gives its page count and, for each page number, either a rendered
  page, no canvas context (the page is skipped), or an exception.
\<close>

datatype pageOutcome = Rendered PageRender | NoContext | RenderThrows thrown

record pdfDocument =
  numPages :: int
  getPage :: "int \<Rightarrow> pageOutcome"

text \<open>\<^verbatim>\<open>for (let i = 1; i <= count; i += 1)\<close> of \<^verbatim>\<open>loadPdf\<close>.\<close>

function renderPages ::
  "(int \<Rightarrow> pageOutcome) \<Rightarrow> int \<Rightarrow> int \<Rightarrow> PageRender list \<Rightarrow> thrown + PageRender list" where
  "renderPages page pageTotal i renders =
     (if i \<le> pageTotal then
        (case page i of
           Rendered r \<Rightarrow> renderPages page pageTotal (i + 1) (renders @ [r])
         | NoContext \<Rightarrow> renderPages page pageTotal (i + 1) renders
         | RenderThrows e \<Rightarrow> Inl e)
      else Inr renders)"
  by pat_completeness auto
termination
  by (relation "measure (\<lambda>(page, pageTotal, i, renders). nat (pageTotal + 1 - i))") auto

declare renderPages.simps [simp del]

definition loadPdf :: "(File \<Rightarrow> thrown + pdfDocument) \<Rightarrow> File \<Rightarrow> app \<Rightarrow> (thrown + unit) \<times> app" where
  "loadPdf getDocument selected st =
     (case getDocument selected of
        Inl e \<Rightarrow> (Inl e, st)
      | Inr pdf \<Rightarrow>
          (let pageTotal = min (numPages pdf) 60;
               st1 = st\<lparr>maxPageCount := Some (numPages pdf), pages := pageTotal\<rparr>
           in case renderPages (getPage pdf) pageTotal 1 [] of
                Inl e \<Rightarrow> (Inl e, st1)
              | Inr renders \<Rightarrow> (Inr (), st1\<lparr>pageRenders := renders\<rparr>)))"

definition loadImage :: "(File \<Rightarrow> thrown + PageRender) \<Rightarrow> File \<Rightarrow> app \<Rightarrow> (thrown + unit) \<times> app" where
  "loadImage decodeImage selected st =
     (case decodeImage selected of
        Inl e \<Rightarrow> (Inl e, st)
      | Inr r \<Rightarrow> (Inr (), st\<lparr>pageRenders := [r], maxPageCount := Some 1, pages := 1\<rparr>))"

definition startsWith :: "string \<Rightarrow> string \<Rightarrow> bool" where
  "startsWith str p = (take (length p) str = p)"

text \<open>
  \<^verbatim>\<open>loadFile\<close>: the four assignments, the \<^verbatim>\<open>try\<close> with its three branches, the
  \<^verbatim>\<open>catch\<close> and the \<^verbatim>\<open>finally\<close>. The branch for an unsupported type reaches no
  \<^verbatim>\<open>await\<close>, so it runs to its end in one turn.
\<close>

definition loadFile ::
  "(File \<Rightarrow> thrown + pdfDocument) \<Rightarrow> (File \<Rightarrow> thrown + PageRender) \<Rightarrow> File \<Rightarrow> app \<Rightarrow> app" where
  "loadFile getDocument decodeImage selected st =
     (let st1 = st\<lparr>file_ref := Some selected, isLoading := True, loadError := None,
                   pageRenders := []\<rparr>;
          (r, st2) =
            (if file_type selected = ''application/pdf'' then loadPdf getDocument selected st1
             else if startsWith (file_type selected) ''image/'' then
               loadImage decodeImage selected st1
             else (Inl (Error ''Unsupported file format.''), st1));
          st3 = (case r of
                   Inl (Error message) \<Rightarrow> st2\<lparr>loadError := Some message\<rparr>
                 | Inl NotAnError \<Rightarrow> st2\<lparr>loadError := Some ''Failed to read file.''\<rparr>
                 | Inr _ \<Rightarrow> st2)
      in st3\<lparr>isLoading := False\<rparr>)"

definition clearFile :: "app \<Rightarrow> app" where
  "clearFile st = st\<lparr>file_ref := None, pageRenders := [], maxPageCount := None\<rparr>"

subsection \<open>Observations and invariants used in the statements\<close>

text \<open>The sheet groups in the stack; none while \<^verbatim>\<open>stackGroup\<close> is null.\<close>

definition children :: "scene \<Rightarrow> sheetGroup list" where
  "children s = (case stackGroup s of None \<Rightarrow> [] | Some cs \<Rightarrow> cs)"

text \<open>What a face shows: the image of its texture and the rotation of that texture, if any.\<close>

definition faceUrl :: "mesh \<Rightarrow> string option" where
  "faceUrl m = map_option tex_url (map_tex (material m))"

definition faceRotation :: "mesh \<Rightarrow> real option" where
  "faceRotation m = map_option tex_rotation (map_tex (material m))"

definition labelText :: "sheetGroup \<Rightarrow> string option" where
  "labelText g = map_option sprite_text (label g)"

text \<open>The image \<^verbatim>\<open>createPageMaterial\<close> puts on a face for a given url: none for a falsy one.\<close>

definition imageOf :: "string option \<Rightarrow> string option" where
  "imageOf u = (if truthy u then u else None)"

text \<open>Constructing a resource and pushing it on \<^verbatim>\<open>disposable\<close>, as every constructor call does.\<close>

definition alloc :: "kind \<Rightarrow> scene \<Rightarrow> scene" where
  "alloc k s = push (nextId s, k) (snd (newResource k s))"

text \<open>
  The books balance: every resource constructed was either disposed of or is still on
  \<^verbatim>\<open>disposable\<close>, and identities are not reused.
\<close>

definition balanced :: "scene \<Rightarrow> bool" where
  "balanced s =
     (mset (allocated s) = mset (disposed s) + mset (disposable s) \<and>
      distinct (map fst (allocated s)) \<and>
      list_all (\<lambda>r. fst r < nextId s) (allocated s))"

text \<open>Everything on \<^verbatim>\<open>disposable\<close> was constructed at or after identity \<open>n\<close>.\<close>

definition fresh_from :: "nat \<Rightarrow> scene \<Rightarrow> bool" where
  "fresh_from n s = (n \<le> nextId s \<and> list_all (\<lambda>r. n \<le> fst r) (disposable s))"

text \<open>Resources are only ever held while the scene exists.\<close>

definition settled :: "scene \<Rightarrow> bool" where
  "settled s =
     (balanced s \<and> ((scene_ready s \<and> stackGroup s \<noteq> None) \<or> disposable s = []))"

text \<open>What one turn of either loop does to the bookkeeping.\<close>

definition sheet_step :: "(int \<Rightarrow> scene \<Rightarrow> scene) \<Rightarrow> bool" where
  "sheet_step body =
     (\<forall>j s. (balanced s \<longrightarrow> balanced (body j s)) \<and>
            (\<forall>n. fresh_from n s \<longrightarrow> fresh_from n (body j s)) \<and>
            scene_ready (body j s) = scene_ready s \<and>
            canvas2d (body j s) = canvas2d s \<and>
            disposed (body j s) = disposed s \<and>
            (\<forall>cs. stackGroup s = Some cs \<longrightarrow> (\<exists>g. stackGroup (body j s) = Some (cs @ [g]))))"

text \<open>The shape both \<^verbatim>\<open>buildStack\<close>s have: the guard, \<^verbatim>\<open>disposeStack\<close>, the loop.\<close>

definition rebuild :: "(int \<Rightarrow> scene \<Rightarrow> scene) \<Rightarrow> int \<Rightarrow> scene \<Rightarrow> scene" where
  "rebuild body n s =
     (if \<not> scene_ready s \<or> stackGroup s = None then s else forLoop body n 0 (disposeStack s))"

text \<open>What the cascade loop and the grid loop put into the group they add for index \<open>j\<close>.\<close>

definition cascade_sheet :: "app \<Rightarrow> int \<Rightarrow> sheetGroup \<Rightarrow> bool" where
  "cascade_sheet st j g =
     (position g = (0, - real_of_int j * 0.015, 0) \<and>
      rotation_x g = degToRad (6 + real_of_int j * 0.2) \<and>
      label g = None \<and>
      faceUrl (frontMesh g) = imageOf (frontUrl st j) \<and>
      faceUrl (backMesh g) = imageOf (backUrl st j) \<and>
      faceRotation (frontMesh g) = (if truthy (frontUrl st j) then Some 0 else None) \<and>
      faceRotation (backMesh g) =
        (if truthy (backUrl st j) then Some (backRotation_cascade st) else None))"

definition grid_sheet :: "app \<Rightarrow> bool \<Rightarrow> int \<Rightarrow> sheetGroup \<Rightarrow> bool" where
  "grid_sheet st ctx j g =
     (position g = (sheet_x st j, 0, sheet_z st j) \<and>
      rotation_x g = degToRad (- 18) \<and>
      labelText g = (if ctx then Some (String (j + 1)) else None) \<and>
      faceUrl (frontMesh g) = imageOf (frontUrl st j) \<and>
      faceUrl (backMesh g) = imageOf (backUrl st j) \<and>
      faceRotation (frontMesh g) =
        (if truthy (frontUrl st j) then Some (orientationRotation st) else None) \<and>
      faceRotation (backMesh g) =
        (if truthy (backUrl st j) then Some (backRotation_grid st) else None))"

text \<open>Concrete inputs: a state of the component with no file, and a freshly mounted scene.\<close>

definition settings ::
  "int \<Rightarrow> int \<Rightarrow> DuplexMode \<Rightarrow> FlipMode \<Rightarrow> OrientationMode \<Rightarrow> PageRender list \<Rightarrow> app" where
  "settings p c d f ori rs =
     \<lparr>file_ref = None, isLoading = False, loadError = None, maxPageCount = None,
      pageRenders = rs, pages = p, copies = c, duplex = d, flip = f, orientation = ori\<rparr>"

definition mounted :: "bool \<Rightarrow> scene" where
  "mounted ctx = initScene True (scene0 ctx)"

text \<open>
  A life of the component up to its unmounting: \<^verbatim>\<open>onMounted\<close> (with or without a preview
  element), then one rebuild for each state in \<open>sts\<close>.
\<close>

definition session ::
  "(app \<Rightarrow> scene \<Rightarrow> scene) \<Rightarrow> bool \<Rightarrow> bool \<Rightarrow> app \<Rightarrow> app list \<Rightarrow> scene" where
  "session buildStack previewRef ctx st0 sts =
     rebuilds buildStack sts (onMounted buildStack previewRef st0 (scene0 ctx))"

text \<open>Seven loaded pages, told apart by their urls.\<close>

definition sample_pages :: "PageRender list" where
  "sample_pages =
     [\<lparr>url = ''p0'', width = 595, height = 842\<rparr>, \<lparr>url = ''p1'', width = 595, height = 842\<rparr>,
      \<lparr>url = ''p2'', width = 595, height = 842\<rparr>, \<lparr>url = ''p3'', width = 595, height = 842\<rparr>,
      \<lparr>url = ''p4'', width = 595, height = 842\<rparr>, \<lparr>url = ''p5'', width = 595, height = 842\<rparr>,
      \<lparr>url = ''p6'', width = 595, height = 842\<rparr>]"

text \<open>
  The settings the spec compares with for out-of-range input: both counts raised to at
  least 1. The component itself has no such function.
\<close>

definition clamped :: "app \<Rightarrow> app" where
  "clamped st = st\<lparr>pages := max (pages st) 1, copies := max (copies st) 1\<rparr>"

text \<open>A file of an unsupported type, and decoders that fail (they are not reached for it).\<close>

definition text_file :: File where
  "text_file = \<lparr>file_name = ''notes.txt'', file_type = ''text/plain''\<rparr>"

definition no_pdf :: "File \<Rightarrow> thrown + pdfDocument" where
  "no_pdf f = Inl NotAnError"

definition no_image :: "File \<Rightarrow> thrown + PageRender" where
  "no_image f = Inl NotAnError"

section \<open>Auxiliary facts\<close>

lemma settings_fields [simp]:
  "pages (settings p c d f ori rs) = p"
  "copies (settings p c d f ori rs) = c"
  "duplex (settings p c d f ori rs) = d"
  "flip (settings p c d f ori rs) = f"
  "orientation (settings p c d f ori rs) = ori"
  "pageRenders (settings p c d f ori rs) = rs"
  by (simp_all add: settings_def)

lemma ceil_half: "\<lceil>real_of_int p / 2\<rceil> = (p + 1) div 2"
proof -
  have "\<lceil>real_of_int p / real_of_int 2\<rceil> = - (- p div 2)"
    by (rule ceiling_divide_eq_div)
  then show ?thesis by simp
qed

lemma sheetsPerCopy_duplex: "duplex st = Duplex \<Longrightarrow> sheetsPerCopy st = (pages st + 1) div 2"
  by (simp add: sheetsPerCopy_def isDuplex_def ceil_half)

lemma sheetsPerCopy_simplex: "duplex st = Simplex \<Longrightarrow> sheetsPerCopy st = pages st"
  by (simp add: sheetsPerCopy_def isDuplex_def)

lemma totalSheets_nonneg: "1 \<le> pages st \<Longrightarrow> 1 \<le> copies st \<Longrightarrow> 1 \<le> totalSheets st"
proof -
  assume p: "1 \<le> pages st" and c: "1 \<le> copies st"
  have "1 \<le> sheetsPerCopy st"
    using p by (cases "duplex st") (simp_all add: sheetsPerCopy_duplex sheetsPerCopy_simplex)
  then have "1 * 1 \<le> sheetsPerCopy st * copies st"
    using c by (intro mult_mono) auto
  then show ?thesis by (simp add: totalSheets_def)
qed

lemma popChildren_Nil: "popChildren xs = []"
  by (induction xs rule: popChildren.induct) auto

lemma forLoop_stop: "\<not> i < n \<Longrightarrow> forLoop body n i s = s"
  by (simp add: forLoop.simps)

lemma forLoop_step: "i < n \<Longrightarrow> forLoop body n i s = forLoop body n (i + 1) (body i s)"
  by (subst forLoop.simps) simp

lemma forLoop_invariant:
  assumes "\<And>j s. i \<le> j \<Longrightarrow> j < n \<Longrightarrow> I s \<Longrightarrow> I (body j s)" and "I s"
  shows "I (forLoop body n i s)"
  using assms
proof (induction body n i s rule: forLoop.induct)
  case (1 body n i s)
  show ?case
  proof (cases "i < n")
    case True
    have "I (body i s)" using 1 True by simp
    then have "I (forLoop body n (i + 1) (body i s))"
      using 1 True by (auto intro!: "1.IH")
    then show ?thesis using True by (simp add: forLoop_step)
  next
    case False
    then show ?thesis using 1 by (simp add: forLoop_stop)
  qed
qed

lemma forLoop_invariant2:
  assumes "\<And>j s. I s \<Longrightarrow> I (body j s)" and "I s"
  shows "I (forLoop body n i s)"
  using assms by (intro forLoop_invariant[where I = I]) auto

lemma forLoop_appends:
  assumes step: "\<And>j s cs. i \<le> j \<Longrightarrow> j < n \<Longrightarrow> Q s \<Longrightarrow> stackGroup s = Some cs \<Longrightarrow>
             Q (body j s) \<and> (\<exists>g. stackGroup (body j s) = Some (cs @ [g]) \<and> P j g)"
    and "Q s" and "stackGroup s = Some cs"
  shows "\<exists>new. stackGroup (forLoop body n i s) = Some (cs @ new) \<and>
           length new = nat (n - i) \<and> (\<forall>k < length new. P (i + int k) (new ! k))"
  using assms
proof (induction body n i s arbitrary: cs rule: forLoop.induct)
  case (1 body n i s)
  show ?case
  proof (cases "i < n")
    case False
    then show ?thesis using 1 by (simp add: forLoop_stop)
  next
    case True
    from "1.prems"(1)[of i s cs] True "1.prems"(2,3)
    obtain g where Q': "Q (body i s)" and g: "stackGroup (body i s) = Some (cs @ [g])" and Pg: "P i g"
      by auto
    have "\<exists>new. stackGroup (forLoop body n (i + 1) (body i s)) = Some ((cs @ [g]) @ new) \<and>
           length new = nat (n - (i + 1)) \<and> (\<forall>k < length new. P (i + 1 + int k) (new ! k))"
      using True Q' g "1.prems"(1) by (intro "1.IH") auto
    then obtain new where new: "stackGroup (forLoop body n (i + 1) (body i s)) = Some ((cs @ [g]) @ new)"
      "length new = nat (n - (i + 1))" "\<forall>k < length new. P (i + 1 + int k) (new ! k)" by blast
    have "\<forall>k < length (g # new). P (i + int k) ((g # new) ! k)"
    proof (intro allI impI)
      fix k assume "k < length (g # new)"
      show "P (i + int k) ((g # new) ! k)"
      proof (cases k)
        case 0 then show ?thesis using Pg by simp
      next
        case (Suc m)
        then have "m < length new" using \<open>k < length (g # new)\<close> by simp
        then have "P (i + 1 + int m) (new ! m)" using new(3) by blast
        then show ?thesis using Suc by (simp add: algebra_simps)
      qed
    qed
    moreover have "length (g # new) = nat (n - i)" using new(2) True by simp
    moreover have "stackGroup (forLoop body n i s) = Some (cs @ (g # new))"
      using new(1) True by (simp add: forLoop_step)
    ultimately show ?thesis by blast
  qed
qed

lemma alloc_fields [simp]:
  "scene_ready (alloc k s) = scene_ready s"
  "stackGroup (alloc k s) = stackGroup s"
  "canvas2d (alloc k s) = canvas2d s"
  "nextId (alloc k s) = Suc (nextId s)"
  "disposable (alloc k s) = disposable s @ [(nextId s, k)]"
  "allocated (alloc k s) = allocated s @ [(nextId s, k)]"
  "disposed (alloc k s) = disposed s"
  by (simp_all add: alloc_def push_def newResource_def)

lemma balanced_alloc: "balanced s \<Longrightarrow> balanced (alloc k s)"
  by (auto simp: balanced_def list_all_iff)

lemma fresh_alloc: "fresh_from n s \<Longrightarrow> fresh_from n (alloc k s)"
  by (auto simp: fresh_from_def list_all_iff)

lemma createTexture_alloc: "snd (createTexture u r s) = alloc Texture s"
  by (simp add: createTexture_def alloc_def newResource_def Let_def)

lemma createTexture_fst: "fst (createTexture u r s) = \<lparr>tex_id = nextId s, tex_url = u, tex_rotation = r\<rparr>"
  by (simp add: createTexture_def newResource_def Let_def)

lemma createPageMaterial_snd:
  "snd (createPageMaterial u r s) = (if truthy u then alloc Material (alloc Texture s) else alloc Material s)"
  by (cases u) (simp_all add: createPageMaterial_def alloc_def newResource_def Let_def split_def createTexture_def)

lemma createPageMaterial_map:
  "map_tex (fst (createPageMaterial u r s)) =
     (if truthy u then Some \<lparr>tex_id = nextId s, tex_url = the u, tex_rotation = r\<rparr> else None)"
  by (cases u) (simp_all add: createPageMaterial_def newResource_def Let_def split_def createTexture_def)

lemma createLabelSprite_snd:
  "snd (createLabelSprite t s) = (if canvas2d s then alloc Material (alloc Texture s) else s)"
  by (simp add: createLabelSprite_def alloc_def newResource_def Let_def split_def)

lemma createLabelSprite_text:
  "map_option sprite_text (fst (createLabelSprite t s)) = (if canvas2d s then Some t else None)"
  by (simp add: createLabelSprite_def alloc_def newResource_def Let_def split_def)

lemma add_fields [simp]:
  "scene_ready (add g s) = scene_ready s"
  "canvas2d (add g s) = canvas2d s"
  "nextId (add g s) = nextId s"
  "disposable (add g s) = disposable s"
  "allocated (add g s) = allocated s"
  "disposed (add g s) = disposed s"
  by (simp_all add: add_def split: option.splits)

lemma add_stackGroup: "stackGroup s = Some cs \<Longrightarrow> stackGroup (add g s) = Some (cs @ [g])"
  by (simp add: add_def)

lemma balanced_add: "balanced s \<Longrightarrow> balanced (add g s)"
  by (simp add: balanced_def)

lemma fresh_add: "fresh_from n s \<Longrightarrow> fresh_from n (add g s)"
  by (simp add: fresh_from_def)

lemma balanced_createPageMaterial: "balanced s \<Longrightarrow> balanced (snd (createPageMaterial u r s))"
  by (simp add: createPageMaterial_snd balanced_alloc)

lemma fresh_createPageMaterial: "fresh_from n s \<Longrightarrow> fresh_from n (snd (createPageMaterial u r s))"
  by (simp add: createPageMaterial_snd fresh_alloc)

lemma balanced_createLabelSprite: "balanced s \<Longrightarrow> balanced (snd (createLabelSprite t s))"
  by (simp add: createLabelSprite_snd balanced_alloc)

lemma fresh_createLabelSprite: "fresh_from n s \<Longrightarrow> fresh_from n (snd (createLabelSprite t s))"
  by (simp add: createLabelSprite_snd fresh_alloc)

lemma createPageMaterial_stackGroup: "stackGroup (snd (createPageMaterial u r s)) = stackGroup s"
  by (simp add: createPageMaterial_snd)

lemma createLabelSprite_stackGroup: "stackGroup (snd (createLabelSprite t s)) = stackGroup s"
  by (simp add: createLabelSprite_snd)

lemma createPageMaterial_url:
  "map_option tex_url (map_tex (fst (createPageMaterial u r s))) = imageOf u"
  by (cases u) (simp_all add: createPageMaterial_map imageOf_def)

lemma createPageMaterial_rotation:
  "map_option tex_rotation (map_tex (fst (createPageMaterial u r s))) =
     (if truthy u then Some r else None)"
  by (simp add: createPageMaterial_map)

lemma buildSheet_cascade_alt:
  "buildSheet_cascade st i s =
     (let s2 = alloc Geometry s;
          fm = createPageMaterial (frontUrl st i) 0 s2;
          bm = createPageMaterial (backUrl st i) (backRotation_cascade st) (snd fm)
      in add \<lparr>frontMesh = \<lparr>geometry = \<lparr>geo_id = nextId s, geo_width = planeWidth_cascade st, geo_height = planeHeight\<rparr>,
                   material = fst fm, mesh_position_z = real_of_int i * sheetDepth, mesh_rotation_y = 0\<rparr>,
               backMesh = \<lparr>geometry = \<lparr>geo_id = nextId s, geo_width = planeWidth_cascade st, geo_height = planeHeight\<rparr>,
                   material = fst bm, mesh_position_z = real_of_int i * sheetDepth - 0.001, mesh_rotation_y = pi\<rparr>,
               label = None, position = (0, - real_of_int i * 0.015, 0),
               rotation_x = degToRad (6 + real_of_int i * 0.2)\<rparr> (snd bm))"
  by (simp add: buildSheet_cascade_def alloc_def newResource_def Let_def split_def)

lemma buildSheet_grid_alt:
  "buildSheet_grid st i s =
     (let s2 = alloc Geometry s;
          fm = createPageMaterial (frontUrl st i) (orientationRotation st) s2;
          bm = createPageMaterial (backUrl st i) (backRotation_grid st) (snd fm);
          lb = createLabelSprite (String (i + 1)) (snd bm)
      in add \<lparr>frontMesh = \<lparr>geometry = \<lparr>geo_id = nextId s, geo_width = planeWidth_grid st, geo_height = planeHeight\<rparr>,
                   material = fst fm, mesh_position_z = 0.01, mesh_rotation_y = 0\<rparr>,
               backMesh = \<lparr>geometry = \<lparr>geo_id = nextId s, geo_width = planeWidth_grid st, geo_height = planeHeight\<rparr>,
                   material = fst bm, mesh_position_z = - 0.01, mesh_rotation_y = pi\<rparr>,
               label = map_option (\<lambda>l. l\<lparr>sprite_position := (0, - planeHeight * 0.62, 0.05),
                                    sprite_scale := (0.9, 0.35, 1),
                                    renderOrder := 5\<rparr>) (fst lb),
               position = (sheet_x st i, 0, sheet_z st i),
               rotation_x = degToRad (- 18)\<rparr> (snd lb))"
  by (simp add: buildSheet_grid_def alloc_def newResource_def Let_def split_def)

lemma balanced_buildSheet_cascade: "balanced s \<Longrightarrow> balanced (buildSheet_cascade st i s)"
  by (simp add: buildSheet_cascade_alt Let_def balanced_add balanced_createPageMaterial balanced_alloc)

lemma balanced_buildSheet_grid: "balanced s \<Longrightarrow> balanced (buildSheet_grid st i s)"
  by (simp add: buildSheet_grid_alt Let_def balanced_add balanced_createPageMaterial
      balanced_createLabelSprite balanced_alloc)

lemma fresh_buildSheet_cascade: "fresh_from n s \<Longrightarrow> fresh_from n (buildSheet_cascade st i s)"
  by (simp add: buildSheet_cascade_alt Let_def fresh_add fresh_createPageMaterial fresh_alloc)

lemma fresh_buildSheet_grid: "fresh_from n s \<Longrightarrow> fresh_from n (buildSheet_grid st i s)"
  by (simp add: buildSheet_grid_alt Let_def fresh_add fresh_createPageMaterial
      fresh_createLabelSprite fresh_alloc)

lemma buildSheet_cascade_fields:
  "scene_ready (buildSheet_cascade st i s) = scene_ready s"
  "canvas2d (buildSheet_cascade st i s) = canvas2d s"
  "disposed (buildSheet_cascade st i s) = disposed s"
  by (simp_all add: buildSheet_cascade_alt Let_def createPageMaterial_snd)

lemma buildSheet_grid_fields:
  "scene_ready (buildSheet_grid st i s) = scene_ready s"
  "canvas2d (buildSheet_grid st i s) = canvas2d s"
  "disposed (buildSheet_grid st i s) = disposed s"
  by (simp_all add: buildSheet_grid_alt Let_def createPageMaterial_snd createLabelSprite_snd)

lemma buildSheet_cascade_appends:
  "stackGroup s = Some cs \<Longrightarrow> \<exists>g. stackGroup (buildSheet_cascade st i s) = Some (cs @ [g])"
  by (simp add: buildSheet_cascade_alt Let_def add_stackGroup createPageMaterial_stackGroup)

lemma buildSheet_grid_appends:
  "stackGroup s = Some cs \<Longrightarrow> \<exists>g. stackGroup (buildSheet_grid st i s) = Some (cs @ [g])"
  by (simp add: buildSheet_grid_alt Let_def add_stackGroup createPageMaterial_stackGroup
      createLabelSprite_stackGroup)

lemma sheet_step_cascade: "sheet_step (buildSheet_cascade st)"
  unfolding sheet_step_def
  using balanced_buildSheet_cascade fresh_buildSheet_cascade buildSheet_cascade_fields
    buildSheet_cascade_appends by simp

lemma sheet_step_grid: "sheet_step (buildSheet_grid st)"
  unfolding sheet_step_def
  using balanced_buildSheet_grid fresh_buildSheet_grid buildSheet_grid_fields
    buildSheet_grid_appends by simp

lemma fold_dispose: "fold dispose xs s = s\<lparr>disposed := disposed s @ xs\<rparr>"
  by (induction xs arbitrary: s) (simp_all add: dispose_def)

lemma disposeStack_eq:
  "disposeStack s = s\<lparr>disposed := disposed s @ disposable s, disposable := [],
                      stackGroup := map_option (\<lambda>_. []) (stackGroup s)\<rparr>"
  by (cases "stackGroup s") (simp_all add: disposeStack_def fold_dispose Let_def popChildren_Nil)

lemma balanced_disposeStack: "balanced s \<Longrightarrow> balanced (disposeStack s)"
  by (simp add: disposeStack_eq balanced_def)

lemma fresh_disposeStack: "fresh_from (nextId s) (disposeStack s)"
  by (simp add: disposeStack_eq fresh_from_def)

lemma disposeStack_stackGroup:
  "stackGroup s \<noteq> None \<Longrightarrow> stackGroup (disposeStack s) = Some []"
  by (auto simp: disposeStack_eq)

lemma buildStack_cascade_rebuild:
  "buildStack_cascade st = rebuild (buildSheet_cascade st) (min (totalSheets st) maxRenderedSheets_cascade)"
  by (rule ext) (simp add: buildStack_cascade_def rebuild_def Let_def)

lemma buildStack_grid_rebuild:
  "buildStack_grid st = rebuild (buildSheet_grid st) (renderCount_grid st)"
  by (rule ext) (simp add: buildStack_grid_def rebuild_def Let_def)

lemma rebuild_loop:
  fixes n :: int
  assumes "sheet_step body" "scene_ready s" "stackGroup s \<noteq> None"
  shows "(balanced s \<longrightarrow> balanced (forLoop body n 0 (disposeStack s))) \<and>
         scene_ready (forLoop body n 0 (disposeStack s)) \<and>
         stackGroup (forLoop body n 0 (disposeStack s)) \<noteq> None \<and>
         canvas2d (forLoop body n 0 (disposeStack s)) = canvas2d s \<and>
         fresh_from (nextId s) (forLoop body n 0 (disposeStack s)) \<and>
         disposed (forLoop body n 0 (disposeStack s)) = disposed s @ disposable s"
proof -
  let ?I = "\<lambda>t. (balanced s \<longrightarrow> balanced t) \<and> scene_ready t \<and> stackGroup t \<noteq> None \<and>
         canvas2d t = canvas2d s \<and> fresh_from (nextId s) t \<and>
         disposed t = disposed s @ disposable s"
  have step: "\<And>j t. ?I t \<Longrightarrow> ?I (body j t)"
    using assms(1) unfolding sheet_step_def by (metis option.distinct(1) not_None_eq)
  have init: "?I (disposeStack s)"
    using assms(2,3) by (simp add: balanced_disposeStack fresh_disposeStack) (simp add: disposeStack_eq)
  show ?thesis by (rule forLoop_invariant2[where I = ?I, OF step init])
qed

lemma rebuild_settled:
  assumes "sheet_step body" "settled s"
  shows "settled (rebuild body n s)"
proof (cases "scene_ready s \<and> stackGroup s \<noteq> None")
  case True
  with rebuild_loop[OF assms(1), of s n] assms(2) show ?thesis
    by (auto simp add: rebuild_def settled_def)
next
  case False
  then show ?thesis using assms(2) by (auto simp: rebuild_def)
qed

lemma rebuild_releases:
  assumes "sheet_step body" "settled s"
  shows "fresh_from (nextId s) (rebuild body n s) \<and>
         disposed (rebuild body n s) = disposed s @ disposable s"
proof (cases "scene_ready s \<and> stackGroup s \<noteq> None")
  case True
  with rebuild_loop[OF assms(1), of s n] show ?thesis
    by (auto simp add: rebuild_def)
next
  case False
  then have "disposable s = []" using assms(2) by (auto simp: settled_def)
  then show ?thesis using False by (auto simp: rebuild_def fresh_from_def)
qed

lemma settled_scene0: "settled (scene0 ctx)"
  by (simp add: settled_def balanced_def scene0_def)

lemma settled_initScene: "settled s \<Longrightarrow> settled (initScene p s)"
  by (auto simp: settled_def balanced_def initScene_def)

lemma settled_disposeStack: "settled s \<Longrightarrow> settled (disposeStack s) \<and> disposable (disposeStack s) = []"
  by (simp add: settled_def balanced_disposeStack) (simp add: disposeStack_eq)

lemma balanced_unreleased:
  assumes "balanced s"
  shows "mset (unreleased s) = mset (disposable s)"
proof -
  have d: "distinct (allocated s)" using assms by (auto simp: balanced_def distinct_map)
  have m: "mset (allocated s) = mset (disposed s) + mset (disposable s)"
    using assms by (simp add: balanced_def)
  have disj: "set (disposed s) \<inter> set (disposable s) = {}"
  proof (rule ccontr)
    assume "set (disposed s) \<inter> set (disposable s) \<noteq> {}"
    then obtain r where "r \<in> set (disposed s)" "r \<in> set (disposable s)" by auto
    then have "count (mset (disposed s)) r > 0" "count (mset (disposable s)) r > 0"
      by (simp_all add: count_mset_gt_0)
    then have "count (mset (disposed s) + mset (disposable s)) r \<ge> 2"
      unfolding plus_multiset.rep_eq by linarith
    moreover have "count (mset (allocated s)) r \<le> 1"
    proof -
      have "\<forall>a. count (mset (allocated s)) a = (if a \<in> set (allocated s) then 1 else 0)"
        using d unfolding distinct_count_atmost_1 .
      then have "count (mset (allocated s)) r = (if r \<in> set (allocated s) then 1 else 0)"
        by blast
      then show ?thesis by (simp split: if_splits)
    qed
    ultimately show False using m by simp
  qed
  have "mset (unreleased s) = filter_mset (\<lambda>r. count_list (disposed s) r = 0) (mset (allocated s))"
    by (simp add: unreleased_def)
  also have "\<dots> = filter_mset (\<lambda>r. r \<notin> set (disposed s)) (mset (disposed s))
                 + filter_mset (\<lambda>r. r \<notin> set (disposed s)) (mset (disposable s))"
    by (simp add: m count_list_0_iff)
  also have "filter_mset (\<lambda>r. r \<notin> set (disposed s)) (mset (disposed s)) = {#}"
    by simp
  also have "filter_mset (\<lambda>r. r \<notin> set (disposed s)) (mset (disposable s)) = mset (disposable s)"
    using disj by (intro filter_mset_eq_conv[THEN iffD2]) auto
  finally show ?thesis by simp
qed

lemma buildSheet_cascade_group:
  assumes "stackGroup s = Some cs"
  shows "\<exists>g. stackGroup (buildSheet_cascade st j s) = Some (cs @ [g]) \<and> cascade_sheet st j g"
  using assms
  by (simp add: buildSheet_cascade_alt Let_def add_stackGroup createPageMaterial_stackGroup
      cascade_sheet_def faceUrl_def faceRotation_def createPageMaterial_url
      createPageMaterial_rotation)

lemma buildSheet_grid_group:
  assumes "stackGroup s = Some cs"
  shows "\<exists>g. stackGroup (buildSheet_grid st j s) = Some (cs @ [g]) \<and>
             grid_sheet st (canvas2d s) j g"
  using assms
  by (simp add: buildSheet_grid_alt Let_def add_stackGroup createPageMaterial_stackGroup
      createLabelSprite_stackGroup grid_sheet_def faceUrl_def faceRotation_def labelText_def
      createPageMaterial_url createPageMaterial_rotation option.map_comp comp_def
      createLabelSprite_text createPageMaterial_snd)

lemma rebuild_children:
  assumes step: "\<And>j t cs. canvas2d t = canvas2d s \<Longrightarrow> stackGroup t = Some cs \<Longrightarrow>
             canvas2d (body j t) = canvas2d s \<and>
             (\<exists>g. stackGroup (body j t) = Some (cs @ [g]) \<and> P j g)"
    and ready: "scene_ready s" "stackGroup s \<noteq> None"
  shows "length (children (rebuild body n s)) = nat n \<and>
         (\<forall>k < nat n. P (int k) (children (rebuild body n s) ! k))"
proof -
  have c: "canvas2d (disposeStack s) = canvas2d s" by (simp add: disposeStack_eq)
  have e: "stackGroup (disposeStack s) = Some []" using ready by (simp add: disposeStack_stackGroup)
  have "\<exists>new. stackGroup (forLoop body n 0 (disposeStack s)) = Some ([] @ new) \<and>
           length new = nat (n - 0) \<and> (\<forall>k < length new. P (0 + int k) (new ! k))"
    by (rule forLoop_appends[where Q = "\<lambda>t. canvas2d t = canvas2d s", OF _ c e]) (use step in blast)
  then show ?thesis using ready by (auto simp: rebuild_def children_def)
qed

lemma buildStack_cascade_children:
  assumes "scene_ready s" "stackGroup s \<noteq> None"
  shows "length (children (buildStack_cascade st s)) =
           nat (min (totalSheets st) maxRenderedSheets_cascade) \<and>
         (\<forall>k < nat (min (totalSheets st) maxRenderedSheets_cascade).
            cascade_sheet st (int k) (children (buildStack_cascade st s) ! k))"
  unfolding buildStack_cascade_rebuild
  by (rule rebuild_children[OF _ assms])
     (use buildSheet_cascade_group buildSheet_cascade_fields in auto)

lemma buildStack_grid_children:
  assumes "scene_ready s" "stackGroup s \<noteq> None"
  shows "length (children (buildStack_grid st s)) = nat (renderCount_grid st) \<and>
         (\<forall>k < nat (renderCount_grid st).
            grid_sheet st (canvas2d s) (int k) (children (buildStack_grid st s) ! k))"
  unfolding buildStack_grid_rebuild
proof (rule rebuild_children[OF _ assms])
  fix j and t :: scene and cs
  assume c: "canvas2d t = canvas2d s" and t: "stackGroup t = Some cs"
  from buildSheet_grid_group[OF t, of st j] c
  show "canvas2d (buildSheet_grid st j t) = canvas2d s \<and>
        (\<exists>g. stackGroup (buildSheet_grid st j t) = Some (cs @ [g]) \<and>
             grid_sheet st (canvas2d s) j g)"
    by (simp add: buildSheet_grid_fields)
qed

lemma buildStack_is_rebuild:
  assumes "B = buildStack_cascade \<or> B = buildStack_grid"
  shows "\<exists>body n. sheet_step body \<and> B st = rebuild body n"
  using assms buildStack_cascade_rebuild[of st] buildStack_grid_rebuild[of st]
    sheet_step_cascade[of st] sheet_step_grid[of st] by auto

lemma settled_buildStack:
  assumes "B = buildStack_cascade \<or> B = buildStack_grid" "settled s"
  shows "settled (B st s)"
  using buildStack_is_rebuild[OF assms(1), of st] rebuild_settled assms(2) by auto

lemma settled_fold:
  assumes "B = buildStack_cascade \<or> B = buildStack_grid"
  shows "settled s \<Longrightarrow> settled (fold B sts s)"
  by (induction sts arbitrary: s) (simp_all add: settled_buildStack[OF assms])

lemma settled_session:
  assumes "B = buildStack_cascade \<or> B = buildStack_grid"
  shows "settled (session B p ctx st0 sts)"
  unfolding session_def rebuilds_def onMounted_def
  by (intro settled_fold[OF assms] settled_buildStack[OF assms] settled_initScene settled_scene0)

lemma balanced_empty:
  assumes "balanced s" "disposable s = []"
  shows "unreleased s = [] \<and> distinct (allocated s) \<and> mset (disposed s) = mset (allocated s) \<and>
         (\<forall>r. count_list (disposed s) r = (if r \<in> set (allocated s) then 1 else 0))"
proof -
  have d: "distinct (allocated s)" using assms(1) by (auto simp: balanced_def distinct_map)
  have m: "mset (disposed s) = mset (allocated s)" using assms by (simp add: balanced_def)
  have "mset (unreleased s) = {#}" using balanced_unreleased[OF assms(1)] assms(2) by simp
  then have u: "unreleased s = []" by simp
  have "\<forall>r. count (mset (allocated s)) r = (if r \<in> set (allocated s) then 1 else 0)"
    using d unfolding distinct_count_atmost_1 .
  then have "\<forall>r. count (mset (disposed s)) r = (if r \<in> set (allocated s) then 1 else 0)"
    using m by simp
  then have "\<forall>r. count_list (disposed s) r = (if r \<in> set (allocated s) then 1 else 0)"
    by (metis count_mset)
  then show ?thesis using d m u by blast
qed

lemma flip_irrelevant_counters [simp]:
  "isDuplex (st\<lparr>flip := f\<rparr>) = isDuplex st"
  "isLandscape (st\<lparr>flip := f\<rparr>) = isLandscape st"
  "sheetsPerCopy (st\<lparr>flip := f\<rparr>) = sheetsPerCopy st"
  "totalSheets (st\<lparr>flip := f\<rparr>) = totalSheets st"
  "pageCount (st\<lparr>flip := f\<rparr>) = pageCount st"
  "base (st\<lparr>flip := f\<rparr>) = base st"
  by (simp_all add: isDuplex_def isLandscape_def sheetsPerCopy_def totalSheets_def pageCount_def
      base_def)

lemma flip_irrelevant_pages [simp]:
  "sheetIndex (st\<lparr>flip := f\<rparr>) i = sheetIndex st i"
  "frontPage (st\<lparr>flip := f\<rparr>) i = frontPage st i"
  "backPage (st\<lparr>flip := f\<rparr>) i = backPage st i"
  "frontIndex (st\<lparr>flip := f\<rparr>) i = frontIndex st i"
  "backIndex (st\<lparr>flip := f\<rparr>) i = backIndex st i"
  "frontUrl (st\<lparr>flip := f\<rparr>) i = frontUrl st i"
  "backUrl (st\<lparr>flip := f\<rparr>) i = backUrl st i"
  by (simp_all add: sheetIndex_def frontPage_def backPage_def frontIndex_def backIndex_def
      frontUrl_def backUrl_def)

lemma flip_irrelevant_geometry [simp]:
  "planeWidth_cascade (st\<lparr>flip := f\<rparr>) = planeWidth_cascade st"
  "aspect (st\<lparr>flip := f\<rparr>) = aspect st"
  "isSourceLandscape (st\<lparr>flip := f\<rparr>) = isSourceLandscape st"
  "targetAspect (st\<lparr>flip := f\<rparr>) = targetAspect st"
  "planeWidth_grid (st\<lparr>flip := f\<rparr>) = planeWidth_grid st"
  "renderCount_grid (st\<lparr>flip := f\<rparr>) = renderCount_grid st"
  "spacingX (st\<lparr>flip := f\<rparr>) = spacingX st"
  "columns (st\<lparr>flip := f\<rparr>) = columns st"
  "rows (st\<lparr>flip := f\<rparr>) = rows st"
  "totalWidth (st\<lparr>flip := f\<rparr>) = totalWidth st"
  "totalDepth (st\<lparr>flip := f\<rparr>) = totalDepth st"
  "orientationRotation (st\<lparr>flip := f\<rparr>) = orientationRotation st"
  "col (st\<lparr>flip := f\<rparr>) i = col st i"
  "row (st\<lparr>flip := f\<rparr>) i = row st i"
  "sheet_x (st\<lparr>flip := f\<rparr>) i = sheet_x st i"
  "sheet_z (st\<lparr>flip := f\<rparr>) i = sheet_z st i"
  by (simp_all add: planeWidth_cascade_def aspect_def isSourceLandscape_def targetAspect_def
      planeWidth_grid_def renderCount_grid_def spacingX_def columns_def rows_def totalWidth_def
      totalDepth_def orientationRotation_def col_def row_def sheet_x_def sheet_z_def)

lemma simplex_backUrl: "duplex st = Simplex \<Longrightarrow> backUrl st i = None"
  by (simp add: backUrl_def backIndex_def backPage_def isDuplex_def)

lemma createPageMaterial_None: "createPageMaterial None r s = createPageMaterial None r' s"
  by (simp add: createPageMaterial_def)

lemma simplex_buildSheet_cascade:
  assumes "duplex st = Simplex"
  shows "buildSheet_cascade (st\<lparr>flip := f\<rparr>) = buildSheet_cascade st"
proof (intro ext)
  fix i s
  have b: "backUrl st i = None" using assms by (rule simplex_backUrl)
  show "buildSheet_cascade (st\<lparr>flip := f\<rparr>) i s = buildSheet_cascade st i s"
    unfolding buildSheet_cascade_def flip_irrelevant_pages flip_irrelevant_geometry b
      createPageMaterial_None[of "backRotation_cascade (st\<lparr>flip := f\<rparr>)" _ "backRotation_cascade st"]
    by (rule refl)
qed

lemma simplex_buildSheet_grid:
  assumes "duplex st = Simplex"
  shows "buildSheet_grid (st\<lparr>flip := f\<rparr>) = buildSheet_grid st"
proof (intro ext)
  fix i s
  have b: "backUrl st i = None" using assms by (rule simplex_backUrl)
  show "buildSheet_grid (st\<lparr>flip := f\<rparr>) i s = buildSheet_grid st i s"
    unfolding buildSheet_grid_def flip_irrelevant_pages flip_irrelevant_geometry b
      createPageMaterial_None[of "backRotation_grid (st\<lparr>flip := f\<rparr>)" _ "backRotation_grid st"]
    by (rule refl)
qed

lemma simplex_buildStack:
  assumes "duplex st = Simplex"
  shows "buildStack_cascade (st\<lparr>flip := f\<rparr>) s = buildStack_cascade st s"
    and "buildStack_grid (st\<lparr>flip := f\<rparr>) s = buildStack_grid st s"
  by (simp_all add: buildStack_cascade_def buildStack_grid_def
      simplex_buildSheet_cascade[OF assms] simplex_buildSheet_grid[OF assms])

lemma face_blank: "faceUrl m = None \<Longrightarrow> map_tex (material m) = None"
  by (simp add: faceUrl_def)

lemma js_rem_nonneg: "0 \<le> i \<Longrightarrow> 0 < n \<Longrightarrow> js_rem i n = i mod n"
  by (cases "i = 0") (simp_all add: js_rem_def)

lemma sheetsPerCopy_pos: "1 \<le> pages st \<Longrightarrow> 1 \<le> sheetsPerCopy st"
  by (cases "duplex st") (simp_all add: sheetsPerCopy_duplex sheetsPerCopy_simplex)

lemma sheetIndex_mod:
  assumes "1 \<le> pages st" "0 \<le> i"
  shows "sheetIndex st i = Num (i mod sheetsPerCopy st)"
  using sheetsPerCopy_pos[OF assms(1)] assms(2)
  by (simp add: sheetIndex_def js_mod_def js_rem_nonneg)

lemma blank_back:
  assumes "backPage st i = Some (Num p)" "pageCount st \<le> p"
  shows "backIndex st i = None \<and> backUrl st i = None"
  using assms by (simp add: backIndex_def backUrl_def)

lemma valid_back:
  assumes "backPage st i = Some (Num p)" "p < pageCount st"
  shows "backIndex st i = Some (Num p)"
  using assms by (simp add: backIndex_def)

lemma null_back: "backPage st i = None \<Longrightarrow> backIndex st i = None \<and> backUrl st i = None"
  by (simp add: backIndex_def backUrl_def)

lemma built_faces_cascade:
  assumes "scene_ready s" "stackGroup s \<noteq> None" "0 \<le> i" "i < totalSheets st"
    "i < maxRenderedSheets_cascade"
  shows "faceUrl (frontMesh (children (buildStack_cascade st s) ! nat i)) = imageOf (frontUrl st i) \<and>
         faceUrl (backMesh (children (buildStack_cascade st s) ! nat i)) = imageOf (backUrl st i)"
proof -
  have "nat i < nat (min (totalSheets st) maxRenderedSheets_cascade)" using assms(3-5) by simp
  with buildStack_cascade_children[OF assms(1,2), of st]
  have "cascade_sheet st (int (nat i)) (children (buildStack_cascade st s) ! nat i)" by blast
  then show ?thesis using assms(3) by (simp add: cascade_sheet_def)
qed

lemma built_sheet_grid:
  assumes "scene_ready s" "stackGroup s \<noteq> None" "0 \<le> i" "i < renderCount_grid st"
  shows "grid_sheet st (canvas2d s) i (children (buildStack_grid st s) ! nat i)"
proof -
  have "nat i < nat (renderCount_grid st)" using assms(3,4) by simp
  with buildStack_grid_children[OF assms(1,2), of st]
  have "grid_sheet st (canvas2d s) (int (nat i)) (children (buildStack_grid st s) ! nat i)" by blast
  then show ?thesis using assms(3) by simp
qed

lemma built_faces_grid:
  assumes "scene_ready s" "stackGroup s \<noteq> None" "0 \<le> i" "i < totalSheets st"
    "i < maxRenderedSheets_grid"
  shows "faceUrl (frontMesh (children (buildStack_grid st s) ! nat i)) = imageOf (frontUrl st i) \<and>
         faceUrl (backMesh (children (buildStack_grid st s) ! nat i)) = imageOf (backUrl st i)"
proof -
  have "i < renderCount_grid st" using assms(4,5) by (simp add: renderCount_grid_def)
  from built_sheet_grid[OF assms(1-3) this] show ?thesis by (simp add: grid_sheet_def)
qed

lemma front_in_range:
  assumes "1 \<le> pages st" "0 \<le> i"
  shows "\<exists>f. frontPage st i = Num f \<and> 0 \<le> f \<and> f < pages st \<and> frontIndex st i = Some (Num f)"
proof -
  have s: "1 \<le> sheetsPerCopy st" using assms(1) by (rule sheetsPerCopy_pos)
  let ?k = "i mod sheetsPerCopy st"
  have k: "0 \<le> ?k" "?k < sheetsPerCopy st" using s by simp_all
  have pc: "pageCount st = pages st" using assms(1) by (simp add: pageCount_def)
  note si = sheetIndex_mod[OF assms]
  show ?thesis
  proof (cases "duplex st")
    case Simplex
    then have f: "frontPage st i = Num ?k" by (simp add: frontPage_def isDuplex_def si)
    have "?k < pages st" using k(2) Simplex by (simp add: sheetsPerCopy_simplex)
    then show ?thesis using f k(1) pc by (simp add: frontIndex_def)
  next
    case Duplex
    then have f: "frontPage st i = Num (?k * 2)" by (simp add: frontPage_def isDuplex_def si)
    have "?k < (pages st + 1) div 2" using k(2) Duplex by (simp add: sheetsPerCopy_duplex)
    then have "?k * 2 < pages st" by linarith
    then show ?thesis using f k(1) pc by (simp add: frontIndex_def)
  qed
qed

lemma sample_eval:
  "sheetsPerCopy (settings 7 1 Duplex Long Portrait sample_pages) = 4"
  "totalSheets (settings 7 1 Duplex Long Portrait sample_pages) = 4"
  "frontUrl (settings 7 1 Duplex Long Portrait sample_pages) 3 = Some ''p6''"
  "backUrl (settings 7 1 Duplex Long Portrait sample_pages) 3 = None"
  "backUrl (settings 7 1 Duplex Long Portrait sample_pages) 0 = Some ''p1''"
  by (simp_all add: totalSheets_def sheetsPerCopy_duplex frontUrl_def backUrl_def
        frontIndex_def backIndex_def frontPage_def backPage_def sheetIndex_def js_mod_def
        js_rem_def isDuplex_def pageCount_def sample_pages_def)

lemma sample_simplex_eval:
  "sheetsPerCopy (settings 5 2 Simplex Long Portrait sample_pages) = 5"
  "totalSheets (settings 5 2 Simplex Long Portrait sample_pages) = 10"
  "frontUrl (settings 5 2 Simplex Long Portrait sample_pages) 5 = Some ''p0''"
  by (simp_all add: totalSheets_def sheetsPerCopy_simplex frontUrl_def
        frontIndex_def frontPage_def sheetIndex_def js_mod_def
        js_rem_def isDuplex_def pageCount_def sample_pages_def)

lemma sample_flip_eval:
  "renderCount_grid (settings 2 1 Duplex f ori sample_pages) = 1"
  "backUrl (settings 2 1 Duplex f ori sample_pages) 0 = Some ''p1''"
  "isSourceLandscape (settings 2 1 Duplex f ori sample_pages) = False"
  by (simp_all add: renderCount_grid_def maxRenderedSheets_grid_def
        totalSheets_def sheetsPerCopy_duplex backUrl_def
        backIndex_def backPage_def sheetIndex_def js_mod_def
        js_rem_def isDuplex_def pageCount_def sample_pages_def isSourceLandscape_def aspect_def
        base_def)

lemma columns_bounds: "1 \<le> columns st \<and> columns st \<le> 10"
  by (simp add: columns_def)

lemma columns_le_renderCount: "1 \<le> renderCount_grid st \<Longrightarrow> columns st \<le> renderCount_grid st"
  by (simp add: columns_def)

lemma col_mod: "0 \<le> i \<Longrightarrow> col st i = i mod columns st"
  using columns_bounds[of st] by (simp add: col_def js_rem_nonneg)

lemma row_div: "row st i = i div columns st"
  unfolding row_def by (rule floor_divide_of_int_eq)

lemma ceil_div_pos:
  fixes a c :: int
  assumes "0 < c"
  shows "- (- a div c) = (a + c - 1) div c"
proof -
  have a: "a = c * (a div c) + a mod c" by simp
  have r: "0 \<le> a mod c" "a mod c < c" using assms by simp_all
  show ?thesis
  proof (cases "a mod c = 0")
    case True
    have "a + c - 1 = c * (a div c) + (c - 1)" using a True by linarith
    then have "(a + c - 1) div c = a div c"
      using assms by (intro int_div_pos_eq[where r = "c - 1"]) simp_all
    then show ?thesis using True assms by (simp add: zdiv_zminus1_eq_if)
  next
    case False
    have "a + c - 1 = c * (a div c + 1) + (a mod c - 1)"
      using a by (simp add: algebra_simps)
    then have "(a + c - 1) div c = a div c + 1"
      using r False by (intro int_div_pos_eq[where r = "a mod c - 1"]) simp_all
    then show ?thesis using False assms by (simp add: zdiv_zminus1_eq_if)
  qed
qed

lemma rows_div:
  "rows st = (renderCount_grid st + columns st - 1) div columns st"
proof -
  have "rows st = - (- renderCount_grid st div columns st)"
    unfolding rows_def by (rule ceiling_divide_eq_div)
  then show ?thesis using columns_bounds[of st] by (simp add: ceil_div_pos)
qed

lemma row_bounds:
  assumes "0 \<le> i" "i < renderCount_grid st"
  shows "0 \<le> row st i \<and> row st i < rows st"
proof -
  have c: "0 < columns st" using columns_bounds[of st] by simp
  have "i div columns st \<le> (renderCount_grid st - 1) div columns st"
    using assms c by (intro zdiv_mono1) auto
  also have "\<dots> < (renderCount_grid st - 1 + columns st) div columns st"
    using c by simp
  finally have "i div columns st < rows st" by (simp add: rows_div algebra_simps)
  moreover have "0 \<le> i div columns st" using assms(1) c by (simp add: pos_imp_zdiv_nonneg_iff)
  ultimately show ?thesis by (simp add: row_div)
qed

lemma last_row: "1 \<le> renderCount_grid st \<Longrightarrow> row st (renderCount_grid st - 1) = rows st - 1"
proof -
  have c: "0 < columns st" using columns_bounds[of st] by simp
  have "(renderCount_grid st - 1 + columns st) div columns st =
        (renderCount_grid st - 1) div columns st + 1"
    using c by simp
  then show ?thesis by (simp add: row_div rows_div algebra_simps)
qed

lemma sheet_x_mirror:
  assumes "0 \<le> i"
  shows "sheet_x st (columns st - 1 - i mod columns st) = - sheet_x st i"
proof -
  have c: "0 < columns st" using columns_bounds[of st] by simp
  let ?j = "columns st - 1 - i mod columns st"
  have "0 \<le> i mod columns st" "i mod columns st < columns st" using c by simp_all
  then have j: "0 \<le> ?j" "?j < columns st" by linarith+
  have cj: "col st ?j = ?j" using j by (simp add: col_mod)
  have a: "sheet_x st ?j =
          (real_of_int (columns st) - 1 - real_of_int (i mod columns st)) * spacingX st
          - (real_of_int (columns st) - 1) * spacingX st / 2"
    unfolding sheet_x_def totalWidth_def cj by simp
  have b: "sheet_x st i =
          real_of_int (i mod columns st) * spacingX st
          - (real_of_int (columns st) - 1) * spacingX st / 2"
    unfolding sheet_x_def totalWidth_def col_mod[OF assms] by simp
  show ?thesis unfolding a b by (simp add: field_simps)
qed

lemma degToRad_tilt: "degToRad (- 18) < 0"
  by (simp add: degToRad_def)

lemma String_12: "String 12 = ''12''"
  by (simp add: String_def String_nat.simps digit_char_def)

lemma sample_grid_eval:
  "renderCount_grid (settings 12 1 Simplex Long Portrait []) = 12"
  "columns (settings 12 1 Simplex Long Portrait []) = 10"
  "rows (settings 12 1 Simplex Long Portrait []) = 2"
  by (simp_all add: rows_div columns_def renderCount_grid_def maxRenderedSheets_grid_def
      totalSheets_def sheetsPerCopy_simplex)

lemma loadFile_unsupported:
  assumes "file_type selected \<noteq> ''application/pdf''"
    and "\<not> startsWith (file_type selected) ''image/''"
  shows "loadFile getDocument decodeImage selected st =
           st\<lparr>file_ref := Some selected, isLoading := False,
              loadError := Some ''Unsupported file format.'', pageRenders := []\<rparr>"
  using assms by (simp add: loadFile_def)

lemma clamped_id: "1 \<le> pages st \<Longrightarrow> 1 \<le> copies st \<Longrightarrow> clamped st = st"
  by (simp add: clamped_def max_def)

lemma clamped_counters_iff:
  "(sheetsPerCopy st = sheetsPerCopy (clamped st) \<and>
    totalSheets st = totalSheets (clamped st) \<and>
    totalSides st = totalSides (clamped st)) \<longleftrightarrow> (1 \<le> pages st \<and> 1 \<le> copies st)"
proof
  assume "1 \<le> pages st \<and> 1 \<le> copies st"
  then show "sheetsPerCopy st = sheetsPerCopy (clamped st) \<and>
    totalSheets st = totalSheets (clamped st) \<and> totalSides st = totalSides (clamped st)"
    by (simp add: clamped_id)
next
  assume eq: "sheetsPerCopy st = sheetsPerCopy (clamped st) \<and>
    totalSheets st = totalSheets (clamped st) \<and> totalSides st = totalSides (clamped st)"
  have p: "1 \<le> pages st"
  proof (rule ccontr)
    assume "\<not> 1 \<le> pages st"
    then have le: "pages st \<le> 0" by simp
    then have c: "pages (clamped st) = 1" by (simp add: clamped_def max_def)
    have d: "duplex (clamped st) = duplex st" by (simp add: clamped_def)
    have "sheetsPerCopy (clamped st) = 1"
      using c d by (cases "duplex st") (simp_all add: sheetsPerCopy_duplex sheetsPerCopy_simplex)
    moreover have "sheetsPerCopy st \<le> 0"
      using le by (cases "duplex st") (simp_all add: sheetsPerCopy_duplex sheetsPerCopy_simplex)
    ultimately show False using eq by simp
  qed
  have "1 \<le> copies st"
  proof (rule ccontr)
    assume "\<not> 1 \<le> copies st"
    then have le: "copies st \<le> 0" by simp
    then have "totalSides (clamped st) = pages st"
      using p by (simp add: totalSides_def clamped_def max_def)
    moreover have "totalSides st \<le> 0"
      using p le by (simp add: totalSides_def mult_le_0_iff)
    ultimately show False using eq p by simp
  qed
  with p show "1 \<le> pages st \<and> 1 \<le> copies st" by simp
qed

section \<open>The claims\<close>

text \<open>
  C1. For a page count of at least 1 and every sheet index \<open>i\<close> with \<open>0 \<le> i < totalSheets\<close>:
  the sheet's index within its copy is \<open>i mod sheetsPerCopy\<close>; in duplex mode the front page
  is twice that index and the back page is twice that index plus one; in simplex mode the
  front page is that index and the back page is null, a blank back. The front page is
  always a page of the document; a back page index of \<open>pageCount\<close> or more gives a blank
  face (no index, no image), a smaller one is kept. For the sheets below the render cap,
  the faces \<^verbatim>\<open>buildStack\<close> builds on an initialised scene show exactly these images, in
  both variants.
\<close>

theorem C1_sheet_mapping:
  assumes "1 \<le> pages st" and "0 \<le> i" and "i < totalSheets st"
  shows "sheetIndex st i = Num (i mod sheetsPerCopy st) \<and>
         (duplex st = Duplex \<longrightarrow>
            frontPage st i = Num (i mod sheetsPerCopy st * 2) \<and>
            backPage st i = Some (Num (i mod sheetsPerCopy st * 2 + 1))) \<and>
         (duplex st = Simplex \<longrightarrow>
            frontPage st i = Num (i mod sheetsPerCopy st) \<and> backPage st i = None \<and>
            backIndex st i = None \<and> backUrl st i = None) \<and>
         (\<exists>f. frontPage st i = Num f \<and> 0 \<le> f \<and> f < pages st \<and>
              frontIndex st i = Some (Num f)) \<and>
         (\<forall>b. backPage st i = Some (Num b) \<and> pages st \<le> b \<longrightarrow>
              backIndex st i = None \<and> backUrl st i = None) \<and>
         (\<forall>b. backPage st i = Some (Num b) \<and> b < pages st \<longrightarrow> backIndex st i = Some (Num b)) \<and>
         (scene_ready s \<and> stackGroup s \<noteq> None \<and> i < maxRenderedSheets_cascade \<longrightarrow>
            faceUrl (frontMesh (children (buildStack_cascade st s) ! nat i)) = imageOf (frontUrl st i) \<and>
            faceUrl (backMesh (children (buildStack_cascade st s) ! nat i)) = imageOf (backUrl st i)) \<and>
         (scene_ready s \<and> stackGroup s \<noteq> None \<and> i < maxRenderedSheets_grid \<longrightarrow>
            faceUrl (frontMesh (children (buildStack_grid st s) ! nat i)) = imageOf (frontUrl st i) \<and>
            faceUrl (backMesh (children (buildStack_grid st s) ! nat i)) = imageOf (backUrl st i))"
proof -
  have pc: "pageCount st = pages st" using assms(1) by (simp add: pageCount_def)
  note si = sheetIndex_mod[OF assms(1,2)]
  have d: "duplex st = Duplex \<longrightarrow>
            frontPage st i = Num (i mod sheetsPerCopy st * 2) \<and>
            backPage st i = Some (Num (i mod sheetsPerCopy st * 2 + 1))"
    by (simp add: frontPage_def backPage_def isDuplex_def si)
  have sx: "duplex st = Simplex \<longrightarrow>
            frontPage st i = Num (i mod sheetsPerCopy st) \<and> backPage st i = None \<and>
            backIndex st i = None \<and> backUrl st i = None"
    using null_back[of st i] by (simp add: frontPage_def backPage_def isDuplex_def si)
  note fr = front_in_range[OF assms(1,2)]
  have bb: "\<forall>b. backPage st i = Some (Num b) \<and> pages st \<le> b \<longrightarrow>
              backIndex st i = None \<and> backUrl st i = None"
    using blank_back[of st i] pc by auto
  have vb: "\<forall>b. backPage st i = Some (Num b) \<and> b < pages st \<longrightarrow> backIndex st i = Some (Num b)"
    using valid_back[of st i] pc by auto
  have c: "scene_ready s \<and> stackGroup s \<noteq> None \<and> i < maxRenderedSheets_cascade \<longrightarrow>
            faceUrl (frontMesh (children (buildStack_cascade st s) ! nat i)) = imageOf (frontUrl st i) \<and>
            faceUrl (backMesh (children (buildStack_cascade st s) ! nat i)) = imageOf (backUrl st i)"
    using built_faces_cascade[of s i st] assms(2,3) by blast
  have g: "scene_ready s \<and> stackGroup s \<noteq> None \<and> i < maxRenderedSheets_grid \<longrightarrow>
            faceUrl (frontMesh (children (buildStack_grid st s) ! nat i)) = imageOf (frontUrl st i) \<and>
            faceUrl (backMesh (children (buildStack_grid st s) ! nat i)) = imageOf (backUrl st i)"
    using built_faces_grid[of s i st] assms(2,3) by blast
  show ?thesis
    by (intro conjI si d sx fr bb vb c g)
qed

text \<open>
  The spec's examples: with 7 pages in duplex, sheet 3 has page 6 on its front and a blank
  back (page index 7 is out of range) and sheet 0 has page 1 on its back; with 5 pages and
  2 copies in simplex, sheet 5 starts the second copy with page 0 and has no back page.
\<close>

theorem C1_witness:
  "1 \<le> pages (settings 7 1 Duplex Long Portrait sample_pages) \<and>
   (0::int) \<le> 3 \<and> 3 < totalSheets (settings 7 1 Duplex Long Portrait sample_pages) \<and>
   duplex (settings 7 1 Duplex Long Portrait sample_pages) = Duplex \<and>
   scene_ready (mounted True) \<and> stackGroup (mounted True) \<noteq> None \<and>
   3 < maxRenderedSheets_cascade \<and> 3 < maxRenderedSheets_grid \<and>
   sheetIndex (settings 7 1 Duplex Long Portrait sample_pages) 3 = Num 3 \<and>
   frontPage (settings 7 1 Duplex Long Portrait sample_pages) 3 = Num 6 \<and>
   backPage (settings 7 1 Duplex Long Portrait sample_pages) 3 = Some (Num 7) \<and>
   pages (settings 7 1 Duplex Long Portrait sample_pages) \<le> 7 \<and>
   backIndex (settings 7 1 Duplex Long Portrait sample_pages) 3 = None \<and>
   faceUrl (frontMesh (children (buildStack_cascade
      (settings 7 1 Duplex Long Portrait sample_pages) (mounted True)) ! 3)) = Some ''p6'' \<and>
   faceUrl (backMesh (children (buildStack_cascade
      (settings 7 1 Duplex Long Portrait sample_pages) (mounted True)) ! 3)) = None \<and>
   faceUrl (frontMesh (children (buildStack_grid
      (settings 7 1 Duplex Long Portrait sample_pages) (mounted True)) ! 3)) = Some ''p6'' \<and>
   faceUrl (backMesh (children (buildStack_grid
      (settings 7 1 Duplex Long Portrait sample_pages) (mounted True)) ! 3)) = None \<and>
   backPage (settings 7 1 Duplex Long Portrait sample_pages) 0 = Some (Num 1) \<and>
   1 < pages (settings 7 1 Duplex Long Portrait sample_pages) \<and>
   backIndex (settings 7 1 Duplex Long Portrait sample_pages) 0 = Some (Num 1) \<and>
   1 \<le> pages (settings 5 2 Simplex Long Portrait sample_pages) \<and>
   (0::int) \<le> 5 \<and> 5 < totalSheets (settings 5 2 Simplex Long Portrait sample_pages) \<and>
   duplex (settings 5 2 Simplex Long Portrait sample_pages) = Simplex \<and>
   frontPage (settings 5 2 Simplex Long Portrait sample_pages) 5 = Num 0 \<and>
   backPage (settings 5 2 Simplex Long Portrait sample_pages) 5 = None"
proof -
  let ?st = "settings 7 1 Duplex Long Portrait sample_pages"
  let ?sx = "settings 5 2 Simplex Long Portrait sample_pages"
  have r: "scene_ready (mounted True)" "stackGroup (mounted True) \<noteq> None"
    by (simp_all add: mounted_def initScene_def scene0_def)
  have m: "3 < maxRenderedSheets_cascade" "3 < maxRenderedSheets_grid"
    by (simp_all add: maxRenderedSheets_cascade_def maxRenderedSheets_grid_def)
  have h3: "1 \<le> pages ?st" "(0::int) \<le> 3" "3 < totalSheets ?st"
    by (simp_all add: sample_eval)
  have h0: "1 \<le> pages ?st" "(0::int) \<le> 0" "0 < totalSheets ?st"
    by (simp_all add: sample_eval)
  have h5: "1 \<le> pages ?sx" "(0::int) \<le> 5" "5 < totalSheets ?sx"
    by (simp_all add: sample_simplex_eval)
  have d: "duplex ?st = Duplex" "duplex ?sx = Simplex" by simp_all
  note t3 = C1_sheet_mapping[OF h3, of "mounted True"]
  note t0 = C1_sheet_mapping[OF h0, of "mounted True"]
  note t5 = C1_sheet_mapping[OF h5, of "mounted True"]
  from t3 have a1: "sheetIndex ?st 3 = Num 3" by (simp add: sample_eval)
  from t3 d have "frontPage ?st 3 = Num (3 mod sheetsPerCopy ?st * 2) \<and>
      backPage ?st 3 = Some (Num (3 mod sheetsPerCopy ?st * 2 + 1))" by blast
  then have a2: "frontPage ?st 3 = Num 6" "backPage ?st 3 = Some (Num 7)"
    by (simp_all add: sample_eval)
  have a3: "pages ?st \<le> 7" "1 < pages ?st" by simp_all
  from t3 have "\<forall>b. backPage ?st 3 = Some (Num b) \<and> pages ?st \<le> b \<longrightarrow>
      backIndex ?st 3 = None \<and> backUrl ?st 3 = None" by blast
  with a2(2) a3(1) have a4: "backIndex ?st 3 = None" by blast
  from t3 r m have "faceUrl (frontMesh (children (buildStack_cascade ?st (mounted True)) ! nat 3))
        = imageOf (frontUrl ?st 3) \<and>
      faceUrl (backMesh (children (buildStack_cascade ?st (mounted True)) ! nat 3))
        = imageOf (backUrl ?st 3)" by blast
  then have a5: "faceUrl (frontMesh (children (buildStack_cascade ?st (mounted True)) ! 3)) = Some ''p6''"
      "faceUrl (backMesh (children (buildStack_cascade ?st (mounted True)) ! 3)) = None"
    by (simp_all add: sample_eval imageOf_def)
  from t3 r m have "faceUrl (frontMesh (children (buildStack_grid ?st (mounted True)) ! nat 3))
        = imageOf (frontUrl ?st 3) \<and>
      faceUrl (backMesh (children (buildStack_grid ?st (mounted True)) ! nat 3))
        = imageOf (backUrl ?st 3)" by blast
  then have a6: "faceUrl (frontMesh (children (buildStack_grid ?st (mounted True)) ! 3)) = Some ''p6''"
      "faceUrl (backMesh (children (buildStack_grid ?st (mounted True)) ! 3)) = None"
    by (simp_all add: sample_eval imageOf_def)
  from t0 d have "backPage ?st 0 = Some (Num (0 mod sheetsPerCopy ?st * 2 + 1))" by blast
  then have b1: "backPage ?st 0 = Some (Num 1)" by (simp add: sample_eval)
  from t0 have "\<forall>b. backPage ?st 0 = Some (Num b) \<and> b < pages ?st \<longrightarrow>
      backIndex ?st 0 = Some (Num b)" by blast
  with b1 a3(2) have b2: "backIndex ?st 0 = Some (Num 1)" by blast
  from t5 d have "frontPage ?sx 5 = Num (5 mod sheetsPerCopy ?sx) \<and> backPage ?sx 5 = None"
    by blast
  then have c1: "frontPage ?sx 5 = Num 0" "backPage ?sx 5 = None"
    by (simp_all add: sample_simplex_eval)
  show ?thesis
    by (intro conjI h3 d r m a1 a2 a3 a4 a5 a6 b1 b2 h5 c1)
qed

text \<open>
  C2. For every page count of at least 1: in duplex mode \<open>sheetsPerCopy\<close> is the page
  count divided by two and rounded up (the least number of sheets whose two sides hold all
  pages), and in simplex mode it is the page count.
\<close>

theorem C2_sheetsPerCopy:
  assumes "1 \<le> pages st"
  shows "(duplex st = Duplex \<longrightarrow>
            sheetsPerCopy st = \<lceil>real_of_int (pages st) / 2\<rceil> \<and>
            sheetsPerCopy st = (pages st + 1) div 2 \<and>
            pages st \<le> 2 * sheetsPerCopy st \<and> 2 * sheetsPerCopy st \<le> pages st + 1) \<and>
         (duplex st = Simplex \<longrightarrow> sheetsPerCopy st = pages st)"
  using assms 
  apply (simp add: sheetsPerCopy_def isDuplex_def ceil_half)
  by linarith

text \<open>The spec's examples: 7 pages duplex need 4 sheets, 5 pages simplex need 5.\<close>

theorem C2_witness:
  "1 \<le> pages (settings 7 1 Duplex Long Portrait []) \<and>
   sheetsPerCopy (settings 7 1 Duplex Long Portrait []) = 4 \<and>
   1 \<le> pages (settings 5 2 Simplex Long Portrait []) \<and>
   sheetsPerCopy (settings 5 2 Simplex Long Portrait []) = 5"
  using C2_sheetsPerCopy[of "settings 7 1 Duplex Long Portrait []"]
    C2_sheetsPerCopy[of "settings 5 2 Simplex Long Portrait []"]
  by simp

text \<open>
  C3. For page and copy counts of at least 1, \<open>totalSides\<close> is pages times copies whatever
  the duplex mode, and \<open>totalSheets\<close> is \<open>sheetsPerCopy\<close> times copies.
\<close>

theorem C3_totals:
  assumes "1 \<le> pages st" and "1 \<le> copies st"
  shows "totalSides st = pages st * copies st \<and>
         totalSides (st\<lparr>duplex := Simplex\<rparr>) = totalSides (st\<lparr>duplex := Duplex\<rparr>) \<and>
         totalSheets st = sheetsPerCopy st * copies st"
  by (simp add: totalSides_def totalSheets_def)

theorem C3_witness:
  "1 \<le> pages (settings 5 2 Simplex Long Portrait []) \<and>
   1 \<le> copies (settings 5 2 Simplex Long Portrait []) \<and>
   totalSides (settings 5 2 Simplex Long Portrait []) = 10 \<and>
   totalSheets (settings 5 2 Simplex Long Portrait []) = 10"
  using C3_totals[of "settings 5 2 Simplex Long Portrait []"]
  by (simp add: sheetsPerCopy_simplex)

text \<open>
  C4. For settings with page and copy counts of at least 1 and an initialised scene, with
  the cap 24 (cascade) or 100 (grid): \<^verbatim>\<open>buildStack\<close> leaves exactly
  \<open>min totalSheets cap\<close> sheet groups in the stack, which is \<open>renderedSheets\<close>; the
  hidden-sheet count is \<open>max (totalSheets - cap) 0\<close>; the two add up to \<open>totalSheets\<close>;
  and never more than the cap is built. The variant without a 3D scene draws
  \<open>min totalSheets 24\<close> sheets.
\<close>

theorem C4_render_cap:
  assumes "1 \<le> pages st" and "1 \<le> copies st"
    and "scene_ready s" and "stackGroup s \<noteq> None"
  shows "int (length (children (buildStack_cascade st s))) = min (totalSheets st) 24 \<and>
         int (length (children (buildStack_cascade st s))) = renderedSheets maxRenderedSheets_cascade st \<and>
         hiddenSheets maxRenderedSheets_cascade st = max (totalSheets st - 24) 0 \<and>
         int (length (children (buildStack_cascade st s))) + hiddenSheets maxRenderedSheets_cascade st
           = totalSheets st \<and>
         length (children (buildStack_cascade st s)) \<le> 24 \<and>
         int (length (children (buildStack_grid st s))) = min (totalSheets st) 100 \<and>
         int (length (children (buildStack_grid st s))) = renderedSheets maxRenderedSheets_grid st \<and>
         hiddenSheets maxRenderedSheets_grid st = max (totalSheets st - 100) 0 \<and>
         int (length (children (buildStack_grid st s))) + hiddenSheets maxRenderedSheets_grid st
           = totalSheets st \<and>
         length (children (buildStack_grid st s)) \<le> 100 \<and>
         int (length (sheetIndices st)) = min (totalSheets st) 24"
proof -
  have t: "1 \<le> totalSheets st" using assms(1,2) by (rule totalSheets_nonneg)
  have a: "length (children (buildStack_cascade st s)) = nat (min (totalSheets st) 24)"
    using buildStack_cascade_children[OF assms(3,4), of st] by (simp add: maxRenderedSheets_cascade_def)
  have b: "length (children (buildStack_grid st s)) = nat (min (totalSheets st) 100)"
    using buildStack_grid_children[OF assms(3,4), of st]
    by (simp add: renderCount_grid_def maxRenderedSheets_grid_def)
  show ?thesis
    using t by (auto simp add: a b sheetIndices_def renderedSheets_def hiddenSheets_def maxRenderedSheets_cascade_def
        maxRenderedSheets_grid_def min_def max_def)
qed

theorem C4_witness:
  "1 \<le> pages (settings 60 1 Simplex Long Portrait []) \<and>
   1 \<le> copies (settings 60 1 Simplex Long Portrait []) \<and>
   scene_ready (mounted True) \<and> stackGroup (mounted True) \<noteq> None \<and>
   length (children (buildStack_cascade (settings 60 1 Simplex Long Portrait []) (mounted True))) = 24 \<and>
   hiddenSheets maxRenderedSheets_cascade (settings 60 1 Simplex Long Portrait []) = 36 \<and>
   length (children (buildStack_grid (settings 60 1 Simplex Long Portrait []) (mounted True))) = 60 \<and>
   hiddenSheets maxRenderedSheets_grid (settings 60 1 Simplex Long Portrait []) = 0"
  using C4_render_cap[of "settings 60 1 Simplex Long Portrait []" "mounted True"]
  by (simp add: mounted_def initScene_def scene0_def totalSheets_def sheetsPerCopy_simplex)

text \<open>
  C5. In the orientation-aware (grid) variant, whatever the page images and so whatever the
  source aspect ratio: in landscape the effective flip edge is the complement of the
  selected one (long becomes short, short becomes long), in portrait it is the selected
  one; the orientation's rotation is 0 when \<open>isLandscape = isSourceLandscape\<close> and a
  quarter turn otherwise; the back rotation is a half turn for an effective short edge and
  0 otherwise, plus the orientation's rotation. With landscape and long edge the flip's
  part of the back rotation is the half turn that portrait with short edge gets. On an
  initialised scene, the back texture of every built sheet that has one carries exactly
  this back rotation.
\<close>

theorem C5_flip_orientation:
  assumes "scene_ready s" and "stackGroup s \<noteq> None" and "0 \<le> i" and "i < renderCount_grid st"
  shows "(orientation st = Landscape \<longrightarrow>
            (flip st = Long \<longrightarrow> effectiveFlip st = Short) \<and>
            (flip st = Short \<longrightarrow> effectiveFlip st = Long)) \<and>
         (orientation st = Portrait \<longrightarrow> effectiveFlip st = flip st) \<and>
         orientationRotation st = (if isLandscape st = isSourceLandscape st then 0 else pi / 2) \<and>
         backRotation_grid st = (if effectiveFlip st = Short then pi else 0) + orientationRotation st \<and>
         (orientation st = Landscape \<and> flip st = Long \<longrightarrow>
            backRotation_grid st - orientationRotation st = pi \<and>
            backRotation_grid st - orientationRotation st =
              backRotation_grid (st\<lparr>orientation := Portrait, flip := Short\<rparr>) -
              orientationRotation (st\<lparr>orientation := Portrait, flip := Short\<rparr>)) \<and>
         faceRotation (backMesh (children (buildStack_grid st s) ! nat i)) =
           (if truthy (backUrl st i) then Some (backRotation_grid st) else None)"
proof -
  have a: "orientation st = Landscape \<longrightarrow>
            (flip st = Long \<longrightarrow> effectiveFlip st = Short) \<and>
            (flip st = Short \<longrightarrow> effectiveFlip st = Long)"
    by (simp add: effectiveFlip_def isLandscape_def)
  have b: "orientation st = Portrait \<longrightarrow> effectiveFlip st = flip st"
    by (simp add: effectiveFlip_def isLandscape_def)
  have c: "orientationRotation st = (if isLandscape st = isSourceLandscape st then 0 else pi / 2)"
    by (simp add: orientationRotation_def)
  have d: "backRotation_grid st = (if effectiveFlip st = Short then pi else 0) + orientationRotation st"
    by (simp add: backRotation_grid_def)
  have e: "orientation st = Landscape \<and> flip st = Long \<longrightarrow>
            backRotation_grid st - orientationRotation st = pi \<and>
            backRotation_grid st - orientationRotation st =
              backRotation_grid (st\<lparr>orientation := Portrait, flip := Short\<rparr>) -
              orientationRotation (st\<lparr>orientation := Portrait, flip := Short\<rparr>)"
    by (simp add: backRotation_grid_def effectiveFlip_def isLandscape_def)
  have f: "faceRotation (backMesh (children (buildStack_grid st s) ! nat i)) =
           (if truthy (backUrl st i) then Some (backRotation_grid st) else None)"
    using built_sheet_grid[OF assms] by (simp add: grid_sheet_def)
  show ?thesis by (intro conjI a b c d e f)
qed

text \<open>
  Portrait pages: shown in landscape with flip on the long edge, the back of sheet 0
  (page 1) is turned by a half turn plus a quarter turn; in landscape with flip on the
  short edge, by the quarter turn alone; in portrait with flip on the short edge, by a half
  turn.
\<close>

theorem C5_witness:
  "scene_ready (mounted True) \<and> stackGroup (mounted True) \<noteq> None \<and> (0::int) \<le> 0 \<and>
   0 < renderCount_grid (settings 2 1 Duplex Long Landscape sample_pages) \<and>
   orientation (settings 2 1 Duplex Long Landscape sample_pages) = Landscape \<and>
   flip (settings 2 1 Duplex Long Landscape sample_pages) = Long \<and>
   effectiveFlip (settings 2 1 Duplex Long Landscape sample_pages) = Short \<and>
   backRotation_grid (settings 2 1 Duplex Long Landscape sample_pages) = pi + pi / 2 \<and>
   faceRotation (backMesh (children
     (buildStack_grid (settings 2 1 Duplex Long Landscape sample_pages) (mounted True)) ! 0)) =
     Some (pi + pi / 2) \<and>
   0 < renderCount_grid (settings 2 1 Duplex Short Landscape sample_pages) \<and>
   orientation (settings 2 1 Duplex Short Landscape sample_pages) = Landscape \<and>
   flip (settings 2 1 Duplex Short Landscape sample_pages) = Short \<and>
   effectiveFlip (settings 2 1 Duplex Short Landscape sample_pages) = Long \<and>
   faceRotation (backMesh (children
     (buildStack_grid (settings 2 1 Duplex Short Landscape sample_pages) (mounted True)) ! 0)) =
     Some (pi / 2) \<and>
   0 < renderCount_grid (settings 2 1 Duplex Short Portrait sample_pages) \<and>
   orientation (settings 2 1 Duplex Short Portrait sample_pages) = Portrait \<and>
   effectiveFlip (settings 2 1 Duplex Short Portrait sample_pages) = Short \<and>
   faceRotation (backMesh (children
     (buildStack_grid (settings 2 1 Duplex Short Portrait sample_pages) (mounted True)) ! 0)) =
     Some pi"
proof -
  let ?ll = "settings 2 1 Duplex Long Landscape sample_pages"
  let ?sl = "settings 2 1 Duplex Short Landscape sample_pages"
  let ?sp = "settings 2 1 Duplex Short Portrait sample_pages"
  have r: "scene_ready (mounted True)" "stackGroup (mounted True) \<noteq> None"
    by (simp_all add: mounted_def initScene_def scene0_def)
  have z: "(0::int) \<le> 0" by simp
  have h: "0 < renderCount_grid ?ll" "0 < renderCount_grid ?sl" "0 < renderCount_grid ?sp"
    by (simp_all add: sample_flip_eval)
  have o: "orientation ?ll = Landscape" "flip ?ll = Long" "orientation ?sl = Landscape"
    "flip ?sl = Short" "orientation ?sp = Portrait" "flip ?sp = Short" by simp_all
  have orot: "orientationRotation ?ll = pi / 2" "orientationRotation ?sl = pi / 2"
    "orientationRotation ?sp = 0"
    using C5_flip_orientation[OF r z h(1)] C5_flip_orientation[OF r z h(2)]
      C5_flip_orientation[OF r z h(3)]
    by (simp_all add: sample_flip_eval isLandscape_def)
  note t1 = C5_flip_orientation[OF r z h(1)]
  note t2 = C5_flip_orientation[OF r z h(2)]
  note t3 = C5_flip_orientation[OF r z h(3)]
  from t1 o have e1: "effectiveFlip ?ll = Short" by blast
  from t2 o have e2: "effectiveFlip ?sl = Long" by blast
  from t3 o have e3: "effectiveFlip ?sp = Short" by metis
  from t1 have "backRotation_grid ?ll = (if effectiveFlip ?ll = Short then pi else 0) + orientationRotation ?ll"
    by blast
  then have b1: "backRotation_grid ?ll = pi + pi / 2" by (simp add: e1 orot)
  from t2 have "backRotation_grid ?sl = (if effectiveFlip ?sl = Short then pi else 0) + orientationRotation ?sl"
    by blast
  then have b2: "backRotation_grid ?sl = pi / 2" by (simp add: e2 orot)
  from t3 have "backRotation_grid ?sp = (if effectiveFlip ?sp = Short then pi else 0) + orientationRotation ?sp"
    by blast
  then have b3: "backRotation_grid ?sp = pi" by (simp add: e3 orot)
  from t1 have "faceRotation (backMesh (children (buildStack_grid ?ll (mounted True)) ! nat 0)) =
           (if truthy (backUrl ?ll 0) then Some (backRotation_grid ?ll) else None)" by blast
  then have f1: "faceRotation (backMesh (children (buildStack_grid ?ll (mounted True)) ! 0)) =
      Some (pi + pi / 2)" by (simp add: sample_flip_eval b1)
  from t2 have "faceRotation (backMesh (children (buildStack_grid ?sl (mounted True)) ! nat 0)) =
           (if truthy (backUrl ?sl 0) then Some (backRotation_grid ?sl) else None)" by blast
  then have f2: "faceRotation (backMesh (children (buildStack_grid ?sl (mounted True)) ! 0)) =
      Some (pi / 2)" by (simp add: sample_flip_eval b2)
  from t3 have "faceRotation (backMesh (children (buildStack_grid ?sp (mounted True)) ! nat 0)) =
           (if truthy (backUrl ?sp 0) then Some (backRotation_grid ?sp) else None)" by blast
  then have f3: "faceRotation (backMesh (children (buildStack_grid ?sp (mounted True)) ! 0)) =
      Some pi" by (simp add: sample_flip_eval b3)
  show ?thesis
    by (intro conjI r z h o(1,2,3,4,5) e1 e2 e3 b1 f1 f2 f3)
qed

text \<open>
  C6, as the code has it. The counters are computed from the counts as they are given:
  \<open>sheetsPerCopy\<close>, \<open>totalSheets\<close> and \<open>totalSides\<close> all equal their values for the clamped
  settings exactly when the page count and the copy count are at least 1, and then the
  front and back mapping of every sheet agrees too. The only clamp in the component is the
  bound \<open>pageCount = max pages 1\<close> that \<^verbatim>\<open>buildStack\<close> compares page indices with. The
  computation is total: for all integer counts \<^verbatim>\<open>buildStack\<close> returns, on an initialised
  scene with \<open>min totalSheets cap\<close> sheets, none when that is not positive.
\<close>

theorem C6_clamping:
  "((sheetsPerCopy st = sheetsPerCopy (clamped st) \<and>
     totalSheets st = totalSheets (clamped st) \<and>
     totalSides st = totalSides (clamped st)) \<longleftrightarrow> (1 \<le> pages st \<and> 1 \<le> copies st)) \<and>
   (1 \<le> pages st \<and> 1 \<le> copies st \<longrightarrow>
      (\<forall>i. frontIndex st i = frontIndex (clamped st) i \<and>
           backIndex st i = backIndex (clamped st) i \<and>
           frontUrl st i = frontUrl (clamped st) i \<and>
           backUrl st i = backUrl (clamped st) i)) \<and>
   pageCount st = max (pages st) 1 \<and>
   (scene_ready s \<and> stackGroup s \<noteq> None \<longrightarrow>
      length (children (buildStack_cascade st s)) = nat (min (totalSheets st) 24) \<and>
      length (children (buildStack_grid st s)) = nat (min (totalSheets st) 100))"
proof -
  have b: "1 \<le> pages st \<and> 1 \<le> copies st \<longrightarrow>
      (\<forall>i. frontIndex st i = frontIndex (clamped st) i \<and>
           backIndex st i = backIndex (clamped st) i \<and>
           frontUrl st i = frontUrl (clamped st) i \<and>
           backUrl st i = backUrl (clamped st) i)"
    by (simp add: clamped_id)
  have c: "scene_ready s \<and> stackGroup s \<noteq> None \<longrightarrow>
      length (children (buildStack_cascade st s)) = nat (min (totalSheets st) 24) \<and>
      length (children (buildStack_grid st s)) = nat (min (totalSheets st) 100)"
    using buildStack_cascade_children[of s st] buildStack_grid_children[of s st]
    by (simp add: maxRenderedSheets_cascade_def renderCount_grid_def maxRenderedSheets_grid_def)
  have d: "pageCount st = max (pages st) 1" by (simp add: pageCount_def)
  show ?thesis
    by (intro conjI clamped_counters_iff b d c)
qed

theorem C6_witness:
  "1 \<le> pages (settings 3 2 Duplex Long Portrait []) \<and>
   1 \<le> copies (settings 3 2 Duplex Long Portrait []) \<and>
   scene_ready (mounted True) \<and> stackGroup (mounted True) \<noteq> None \<and>
   sheetsPerCopy (settings 3 2 Duplex Long Portrait []) =
     sheetsPerCopy (clamped (settings 3 2 Duplex Long Portrait [])) \<and>
   totalSheets (settings 3 2 Duplex Long Portrait []) =
     totalSheets (clamped (settings 3 2 Duplex Long Portrait [])) \<and>
   totalSides (settings 3 2 Duplex Long Portrait []) =
     totalSides (clamped (settings 3 2 Duplex Long Portrait [])) \<and>
   frontIndex (settings 3 2 Duplex Long Portrait []) 1 =
     frontIndex (clamped (settings 3 2 Duplex Long Portrait [])) 1 \<and>
   length (children (buildStack_cascade (settings 3 2 Duplex Long Portrait []) (mounted True))) = 4 \<and>
   length (children (buildStack_grid (settings 0 (- 2) Duplex Long Portrait []) (mounted True))) = 0"
proof -
  have r: "scene_ready (mounted True)" "stackGroup (mounted True) \<noteq> None"
    by (simp_all add: mounted_def initScene_def scene0_def)
  have t: "totalSheets (settings 3 2 Duplex Long Portrait []) = 4"
    "totalSheets (settings 0 (- 2) Duplex Long Portrait []) = 0"
    by (simp_all add: totalSheets_def sheetsPerCopy_duplex)
  show ?thesis
    using C6_clamping[of "settings 3 2 Duplex Long Portrait []" "mounted True"]
      C6_clamping[of "settings 0 (- 2) Duplex Long Portrait []" "mounted True"] r t
    by simp
qed

text \<open>
  C6 as the spec states it fails: with 0 pages the counters are 0 where the clamped
  settings give 1, and with 0 copies \<open>totalSides\<close> is 0 where they give 3.
\<close>

theorem C6_counterexample:
  "sheetsPerCopy (settings 0 1 Simplex Long Portrait []) = 0 \<and>
   sheetsPerCopy (clamped (settings 0 1 Simplex Long Portrait [])) = 1 \<and>
   totalSheets (settings 0 1 Simplex Long Portrait []) = 0 \<and>
   totalSheets (clamped (settings 0 1 Simplex Long Portrait [])) = 1 \<and>
   totalSides (settings 3 0 Simplex Long Portrait []) = 0 \<and>
   totalSides (clamped (settings 3 0 Simplex Long Portrait [])) = 3"
  by (simp add: clamped_def totalSheets_def totalSides_def sheetsPerCopy_simplex)

text \<open>
  C7, as the code has it. A file whose type is neither \<^verbatim>\<open>application/pdf\<close> nor starts with
  \<^verbatim>\<open>image/\<close> is rejected with the message "Unsupported file format."; the detected page
  count and the print settings (pages, copies, duplex, flip, orientation) stay as they
  were. The page images are cleared and the file is recorded as the selected one, as at the
  start of every load.
\<close>

theorem C7_unsupported_format:
  assumes "file_type selected \<noteq> ''application/pdf''"
    and "\<not> startsWith (file_type selected) ''image/''"
  shows "loadError (loadFile getDocument decodeImage selected st) = Some ''Unsupported file format.'' \<and>
         maxPageCount (loadFile getDocument decodeImage selected st) = maxPageCount st \<and>
         pages (loadFile getDocument decodeImage selected st) = pages st \<and>
         copies (loadFile getDocument decodeImage selected st) = copies st \<and>
         duplex (loadFile getDocument decodeImage selected st) = duplex st \<and>
         flip (loadFile getDocument decodeImage selected st) = flip st \<and>
         orientation (loadFile getDocument decodeImage selected st) = orientation st \<and>
         pageRenders (loadFile getDocument decodeImage selected st) = [] \<and>
         file_ref (loadFile getDocument decodeImage selected st) = Some selected \<and>
         isLoading (loadFile getDocument decodeImage selected st) = False"
  unfolding loadFile_unsupported[OF assms] by simp

theorem C7_witness:
  "file_type text_file \<noteq> ''application/pdf'' \<and>
   \<not> startsWith (file_type text_file) ''image/'' \<and>
   loadError (loadFile no_pdf no_image text_file (settings 7 1 Duplex Long Portrait sample_pages))
     = Some ''Unsupported file format.'' \<and>
   pages (loadFile no_pdf no_image text_file (settings 7 1 Duplex Long Portrait sample_pages)) = 7 \<and>
   pageRenders (loadFile no_pdf no_image text_file (settings 7 1 Duplex Long Portrait sample_pages))
     = []"
  using C7_unsupported_format[of text_file no_pdf no_image
      "settings 7 1 Duplex Long Portrait sample_pages"]
  by (simp add: text_file_def startsWith_def)

text \<open>
  C7 as the spec states it fails: seven pages are loaded, a text file is dropped, and the
  page images are gone.
\<close>

theorem C7_counterexample:
  "file_type text_file \<noteq> ''application/pdf'' \<and>
   \<not> startsWith (file_type text_file) ''image/'' \<and>
   pageRenders (loadFile no_pdf no_image text_file (settings 7 1 Duplex Long Portrait sample_pages))
     \<noteq> pageRenders (settings 7 1 Duplex Long Portrait sample_pages)"
  by (simp add: loadFile_def text_file_def startsWith_def sample_pages_def)

text \<open>
  C8. For either \<^verbatim>\<open>buildStack\<close>, after mounting, any number of rebuilds (one for each
  state in \<open>sts\<close>) and the teardown: nothing is left on \<^verbatim>\<open>disposable\<close>, no constructed
  resource is unreleased, and every texture, material and geometry ever constructed was
  disposed of exactly once. Each rebuild disposes of exactly the resources held before
  it, and what is held after it was constructed during it.
\<close>

theorem C8_resources_released:
  assumes "B = buildStack_cascade \<or> B = buildStack_grid"
  shows "disposable (onBeforeUnmount (session B p ctx st0 sts)) = [] \<and>
         length (unreleased (onBeforeUnmount (session B p ctx st0 sts))) = 0 \<and>
         distinct (allocated (onBeforeUnmount (session B p ctx st0 sts))) \<and>
         mset (disposed (onBeforeUnmount (session B p ctx st0 sts))) =
           mset (allocated (onBeforeUnmount (session B p ctx st0 sts))) \<and>
         (\<forall>r. count_list (disposed (onBeforeUnmount (session B p ctx st0 sts))) r =
              (if r \<in> set (allocated (onBeforeUnmount (session B p ctx st0 sts))) then 1 else 0)) \<and>
         disposed (B st (session B p ctx st0 sts)) =
           disposed (session B p ctx st0 sts) @ disposable (session B p ctx st0 sts) \<and>
         list_all (\<lambda>r. fst r < nextId (session B p ctx st0 sts))
           (disposable (session B p ctx st0 sts)) \<and>
         list_all (\<lambda>r. nextId (session B p ctx st0 sts) \<le> fst r)
           (disposable (B st (session B p ctx st0 sts))) \<and>
         mset (unreleased (B st (session B p ctx st0 sts))) =
           mset (disposable (B st (session B p ctx st0 sts)))"
proof -
  let ?mid = "session B p ctx st0 sts"
  let ?fin = "onBeforeUnmount ?mid"
  have mid: "settled ?mid" by (rule settled_session[OF assms])
  have fin: "balanced ?fin" "disposable ?fin = []"
    using settled_disposeStack[OF mid] by (simp_all add: onBeforeUnmount_def settled_def)
  note e = balanced_empty[OF fin]
  obtain body n where b: "sheet_step body" "B st = rebuild body n"
    using buildStack_is_rebuild[OF assms, of st] by blast
  have r: "fresh_from (nextId ?mid) (B st ?mid)"
     "disposed (B st ?mid) = disposed ?mid @ disposable ?mid"
    using rebuild_releases[OF b(1) mid, of n] b(2) by simp_all
  have "balanced (B st ?mid)" using settled_buildStack[OF assms mid] by (simp add: settled_def)
  then have u: "mset (unreleased (B st ?mid)) = mset (disposable (B st ?mid))"
    by (rule balanced_unreleased)
  have old: "list_all (\<lambda>r. fst r < nextId ?mid) (disposable ?mid)"
  proof -
    have a: "list_all (\<lambda>r. fst r < nextId ?mid) (allocated ?mid)"
      and m: "mset (allocated ?mid) = mset (disposed ?mid) + mset (disposable ?mid)"
      using mid by (simp_all add: settled_def balanced_def)
    have "set_mset (mset (allocated ?mid)) =
            set_mset (mset (disposed ?mid) + mset (disposable ?mid))"
      by (simp only: m)
    then have "set (disposable ?mid) \<subseteq> set (allocated ?mid)" by auto
    then show ?thesis using a by (auto simp: list_all_iff)
  qed
  show ?thesis using e fin(2) r u old by (simp add: fresh_from_def)
qed

text \<open>
  One cascade sheet with two blank faces: a geometry and two materials, all released. One
  grid sheet with an image and a label: six resources, all released.
\<close>

theorem C8_witness:
  "(buildStack_cascade = buildStack_cascade \<or> buildStack_cascade = buildStack_grid) \<and>
   allocated (session buildStack_cascade True True (settings 1 1 Duplex Long Portrait []) []) =
     [(0, Geometry), (1, Material), (2, Material)] \<and>
   disposable (onBeforeUnmount
      (session buildStack_cascade True True (settings 1 1 Duplex Long Portrait []) [])) = [] \<and>
   disposed (onBeforeUnmount
      (session buildStack_cascade True True (settings 1 1 Duplex Long Portrait []) [])) =
     [(0, Geometry), (1, Material), (2, Material)] \<and>
   (buildStack_grid = buildStack_cascade \<or> buildStack_grid = buildStack_grid) \<and>
   allocated (session buildStack_grid True True (settings 1 1 Simplex Long Portrait sample_pages) []) =
     [(0, Geometry), (1, Texture), (2, Material), (3, Material), (4, Texture), (5, Material)] \<and>
   disposable (onBeforeUnmount
      (session buildStack_grid True True (settings 1 1 Simplex Long Portrait sample_pages) [])) = [] \<and>
   mset (disposed (onBeforeUnmount
      (session buildStack_grid True True (settings 1 1 Simplex Long Portrait sample_pages) []))) =
   mset (allocated (onBeforeUnmount
      (session buildStack_grid True True (settings 1 1 Simplex Long Portrait sample_pages) [])))"
proof -
  let ?c = "session buildStack_cascade True True (settings 1 1 Duplex Long Portrait []) []"
  let ?g = "session buildStack_grid True True (settings 1 1 Simplex Long Portrait sample_pages) []"
  have a: "?c = \<lparr>scene_ready = True, stackGroup = stackGroup ?c,
      disposable = [(0, Geometry), (1, Material), (2, Material)], canvas2d = True, nextId = 3,
      allocated = [(0, Geometry), (1, Material), (2, Material)], disposed = []\<rparr>"
    by (simp add: session_def rebuilds_def onMounted_def initScene_def scene0_def
        buildStack_cascade_rebuild rebuild_def disposeStack_eq totalSheets_def
        sheetsPerCopy_duplex maxRenderedSheets_cascade_def forLoop.simps
        buildSheet_cascade_alt Let_def createPageMaterial_snd frontUrl_def backUrl_def
        frontIndex_def backIndex_def frontPage_def backPage_def sheetIndex_def js_mod_def
        js_rem_def isDuplex_def pageCount_def push_def newResource_def alloc_def add_def)
  have b: "allocated ?g =
     [(0, Geometry), (1, Texture), (2, Material), (3, Material), (4, Texture), (5, Material)]"
    by (simp add: session_def rebuilds_def onMounted_def initScene_def scene0_def
        buildStack_grid_rebuild rebuild_def disposeStack_eq totalSheets_def renderCount_grid_def
        sheetsPerCopy_simplex maxRenderedSheets_grid_def forLoop.simps
        buildSheet_grid_alt Let_def createPageMaterial_snd createLabelSprite_snd
        frontUrl_def backUrl_def
        frontIndex_def backIndex_def frontPage_def backPage_def sheetIndex_def js_mod_def
        js_rem_def isDuplex_def pageCount_def sample_pages_def)
  have c: "allocated ?c = [(0, Geometry), (1, Material), (2, Material)]"
    by (subst a) simp
  have d: "disposed (onBeforeUnmount ?c) = [(0, Geometry), (1, Material), (2, Material)]"
    unfolding onBeforeUnmount_def disposeStack_eq by (subst (1 2) a) simp
  show ?thesis
    using C8_resources_released[of buildStack_cascade True True
        "settings 1 1 Duplex Long Portrait []" "[]"]
      C8_resources_released[of buildStack_grid True True
        "settings 1 1 Simplex Long Portrait sample_pages" "[]"] b c d
    by simp
qed

text \<open>
  C9. In the grid variant, on an initialised scene with a 2D canvas context, for every built
  sheet \<open>i\<close> (so \<open>renderCount \<ge> 1\<close>): there are \<open>min 10 (max 1 renderCount)\<close> columns and
  \<open>renderCount / columns\<close> rounded up rows; the sheet stands in column \<open>i mod columns\<close> and
  row \<open>i div columns\<close>, inside the grid, and the last sheet stands in the last row; its
  position is given by these; the x positions are symmetric about the origin (the mirror
  image of every sheet's x is the x of a built sheet); every sheet is tilted by the same
  angle of -18 degrees; and its label reads \<open>i + 1\<close> in decimal.
\<close>

theorem C9_grid_layout:
  assumes "scene_ready s" and "stackGroup s \<noteq> None" and "canvas2d s"
    and "0 \<le> i" and "i < renderCount_grid st"
  shows "columns st = min 10 (max 1 (renderCount_grid st)) \<and>
         rows st = \<lceil>real_of_int (renderCount_grid st) / real_of_int (columns st)\<rceil> \<and>
         rows st = (renderCount_grid st + columns st - 1) div columns st \<and>
         col st i = i mod columns st \<and> row st i = i div columns st \<and>
         0 \<le> col st i \<and> col st i < columns st \<and> 0 \<le> row st i \<and> row st i < rows st \<and>
         row st (renderCount_grid st - 1) = rows st - 1 \<and>
         position (children (buildStack_grid st s) ! nat i) =
           (real_of_int (i mod columns st) * spacingX st - totalWidth st / 2, 0,
            totalDepth st / 2 - real_of_int (i div columns st) * spacingZ) \<and>
         (\<exists>j. 0 \<le> j \<and> j < renderCount_grid st \<and>
              fst (position (children (buildStack_grid st s) ! nat j)) =
              - fst (position (children (buildStack_grid st s) ! nat i))) \<and>
         rotation_x (children (buildStack_grid st s) ! nat i) = degToRad (- 18) \<and>
         degToRad (- 18) < 0 \<and>
         labelText (children (buildStack_grid st s) ! nat i) = Some (String (i + 1))"
proof -
  have c: "0 < columns st" using columns_bounds[of st] by simp
  have rc: "1 \<le> renderCount_grid st" using assms(4,5) by simp
  note g = built_sheet_grid[OF assms(1,2,4,5), unfolded grid_sheet_def]
  have p1: "columns st = min 10 (max 1 (renderCount_grid st))" by (simp add: columns_def)
  have p2: "rows st = \<lceil>real_of_int (renderCount_grid st) / real_of_int (columns st)\<rceil>"
    by (simp add: rows_def)
  note p3 = rows_div[of st]
  note p4 = col_mod[OF assms(4), of st]
  note p5 = row_div[of st i]
  have p6: "0 \<le> col st i" "col st i < columns st" using c by (simp_all add: p4)
  have p7: "0 \<le> row st i" "row st i < rows st" using row_bounds[OF assms(4,5)] by simp_all
  note p8 = last_row[OF rc]
  have p9: "position (children (buildStack_grid st s) ! nat i) =
           (real_of_int (i mod columns st) * spacingX st - totalWidth st / 2, 0,
            totalDepth st / 2 - real_of_int (i div columns st) * spacingZ)"
    using g by (simp add: sheet_x_def sheet_z_def p4 p5)
  have p10: "\<exists>j. 0 \<le> j \<and> j < renderCount_grid st \<and>
              fst (position (children (buildStack_grid st s) ! nat j)) =
              - fst (position (children (buildStack_grid st s) ! nat i))"
  proof -
    let ?j = "columns st - 1 - i mod columns st"
    have "0 \<le> i mod columns st" "i mod columns st < columns st" using c by simp_all
    then have j: "0 \<le> ?j" "?j < columns st" by linarith+
    then have j': "?j < renderCount_grid st" using columns_le_renderCount[OF rc] by linarith
    have "fst (position (children (buildStack_grid st s) ! nat ?j)) = sheet_x st ?j"
      using built_sheet_grid[OF assms(1,2) j(1) j'] by (simp add: grid_sheet_def)
    moreover have "fst (position (children (buildStack_grid st s) ! nat i)) = sheet_x st i"
      using g by simp
    ultimately have "fst (position (children (buildStack_grid st s) ! nat ?j)) =
              - fst (position (children (buildStack_grid st s) ! nat i))"
      using sheet_x_mirror[OF assms(4), of st] by simp
    then show ?thesis using j(1) j' by blast
  qed
  have p11: "rotation_x (children (buildStack_grid st s) ! nat i) = degToRad (- 18)"
    using g by simp
  have p12: "labelText (children (buildStack_grid st s) ! nat i) = Some (String (i + 1))"
    using g assms(3) by simp
  show ?thesis
    by (intro conjI p1 p2 p3 p4 p5 p6 p7 p8 p9 p10 p11 degToRad_tilt p12)
qed

text \<open>Twelve sheets: ten columns, two rows; sheet 11 is in column 1 of row 1 and is labelled 12.\<close>

theorem C9_witness:
  "scene_ready (mounted True) \<and> stackGroup (mounted True) \<noteq> None \<and> canvas2d (mounted True) \<and>
   (0::int) \<le> 11 \<and> 11 < renderCount_grid (settings 12 1 Simplex Long Portrait []) \<and>
   columns (settings 12 1 Simplex Long Portrait []) = 10 \<and>
   rows (settings 12 1 Simplex Long Portrait []) = 2 \<and>
   col (settings 12 1 Simplex Long Portrait []) 11 = 1 \<and>
   row (settings 12 1 Simplex Long Portrait []) 11 = 1 \<and>
   labelText (children (buildStack_grid (settings 12 1 Simplex Long Portrait []) (mounted True)) ! 11)
     = Some ''12''"
proof -
  let ?st = "settings 12 1 Simplex Long Portrait []"
  have r: "scene_ready (mounted True)" "stackGroup (mounted True) \<noteq> None" "canvas2d (mounted True)"
    by (simp_all add: mounted_def initScene_def scene0_def)
  have h: "(0::int) \<le> 11" "11 < renderCount_grid ?st" by (simp_all add: sample_grid_eval)
  note t = C9_grid_layout[OF r h]
  have n: "nat 11 = 11" by simp
  have s12: "String (11 + 1) = ''12''" using String_12 by simp
  show ?thesis
    using t r unfolding n s12 by (simp add: sample_grid_eval)
qed

text \<open>
  C10. In simplex mode the flip setting has no effect: with everything else equal,
  \<^verbatim>\<open>buildStack\<close> of either variant leaves the same scene (sheet groups, textures with
  their rotations, resources) for flip long and flip short. On an initialised scene the
  back face of every sheet has no texture, and a front texture carries the rotation 0
  (cascade) or the orientation's rotation (grid), never one derived from the flip.
\<close>

theorem C10_simplex_ignores_flip:
  assumes "duplex st = Simplex"
  shows "buildStack_cascade (st\<lparr>flip := Long\<rparr>) s = buildStack_cascade (st\<lparr>flip := Short\<rparr>) s \<and>
         buildStack_grid (st\<lparr>flip := Long\<rparr>) s = buildStack_grid (st\<lparr>flip := Short\<rparr>) s \<and>
         (scene_ready s \<and> stackGroup s \<noteq> None \<longrightarrow>
            (\<forall>k < length (children (buildStack_cascade st s)).
               map_tex (material (backMesh (children (buildStack_cascade st s) ! k))) = None \<and>
               faceRotation (frontMesh (children (buildStack_cascade st s) ! k)) =
                 (if truthy (frontUrl st (int k)) then Some 0 else None)) \<and>
            (\<forall>k < length (children (buildStack_grid st s)).
               map_tex (material (backMesh (children (buildStack_grid st s) ! k))) = None \<and>
               faceRotation (frontMesh (children (buildStack_grid st s) ! k)) =
                 (if truthy (frontUrl st (int k)) then Some (orientationRotation st) else None)))"
proof -
  have a: "buildStack_cascade (st\<lparr>flip := Long\<rparr>) s = buildStack_cascade (st\<lparr>flip := Short\<rparr>) s"
    by (simp add: simplex_buildStack(1)[OF assms])
  have b: "buildStack_grid (st\<lparr>flip := Long\<rparr>) s = buildStack_grid (st\<lparr>flip := Short\<rparr>) s"
    by (simp add: simplex_buildStack(2)[OF assms])
  have c: "map_tex (material (backMesh (children (buildStack_cascade st s) ! k))) = None \<and>
           faceRotation (frontMesh (children (buildStack_cascade st s) ! k)) =
             (if truthy (frontUrl st (int k)) then Some 0 else None)"
    if "scene_ready s" "stackGroup s \<noteq> None" "k < length (children (buildStack_cascade st s))" for k
  proof -
    from buildStack_cascade_children[OF that(1,2), of st] that(3)
    have "cascade_sheet st (int k) (children (buildStack_cascade st s) ! k)" by simp
    then show ?thesis
      by (simp add: cascade_sheet_def simplex_backUrl[OF assms] imageOf_def face_blank)
  qed
  have d: "map_tex (material (backMesh (children (buildStack_grid st s) ! k))) = None \<and>
           faceRotation (frontMesh (children (buildStack_grid st s) ! k)) =
             (if truthy (frontUrl st (int k)) then Some (orientationRotation st) else None)"
    if "scene_ready s" "stackGroup s \<noteq> None" "k < length (children (buildStack_grid st s))" for k
  proof -
    from buildStack_grid_children[OF that(1,2), of st] that(3)
    have "grid_sheet st (canvas2d s) (int k) (children (buildStack_grid st s) ! k)" by simp
    then show ?thesis
      by (simp add: grid_sheet_def simplex_backUrl[OF assms] imageOf_def face_blank)
  qed
  show ?thesis using a b c d by blast
qed

theorem C10_witness:
  "duplex (settings 1 1 Simplex Long Portrait sample_pages) = Simplex \<and>
   scene_ready (mounted True) \<and> stackGroup (mounted True) \<noteq> None \<and>
   length (children (buildStack_cascade (settings 1 1 Simplex Long Portrait sample_pages) (mounted True))) = 1 \<and>
   buildStack_cascade (settings 1 1 Simplex Long Portrait sample_pages) (mounted True) =
   buildStack_cascade (settings 1 1 Simplex Short Portrait sample_pages) (mounted True) \<and>
   map_tex (material (backMesh (children
      (buildStack_cascade (settings 1 1 Simplex Long Portrait sample_pages) (mounted True)) ! 0))) = None \<and>
   faceRotation (frontMesh (children
      (buildStack_cascade (settings 1 1 Simplex Long Portrait sample_pages) (mounted True)) ! 0)) = Some 0"
proof -
  let ?st = "settings 1 1 Simplex Long Portrait sample_pages"
  have r: "scene_ready (mounted True)" "stackGroup (mounted True) \<noteq> None"
    by (simp_all add: mounted_def initScene_def scene0_def)
  have l: "length (children (buildStack_cascade ?st (mounted True))) = 1"
    using buildStack_cascade_children[OF r, of ?st]
    by (simp add: totalSheets_def sheetsPerCopy_simplex maxRenderedSheets_cascade_def)
  have f: "frontUrl ?st 0 = Some ''p0''"
    by (simp add: frontUrl_def frontIndex_def frontPage_def sheetIndex_def js_mod_def js_rem_def
        isDuplex_def sheetsPerCopy_simplex pageCount_def sample_pages_def)
  have e: "?st\<lparr>flip := Long\<rparr> = ?st" "?st\<lparr>flip := Short\<rparr> = settings 1 1 Simplex Short Portrait sample_pages"
    by (simp_all add: settings_def)
  have d: "duplex ?st = Simplex" by simp
  note t = C10_simplex_ignores_flip[OF d, of "mounted True", unfolded e]
  from t have eq: "buildStack_cascade ?st (mounted True) =
      buildStack_cascade (settings 1 1 Simplex Short Portrait sample_pages) (mounted True)"
    by blast
  from t r have "\<forall>k < length (children (buildStack_cascade ?st (mounted True))).
      map_tex (material (backMesh (children (buildStack_cascade ?st (mounted True)) ! k))) = None \<and>
      faceRotation (frontMesh (children (buildStack_cascade ?st (mounted True)) ! k)) =
        (if truthy (frontUrl ?st (int k)) then Some 0 else None)"
    by blast
  then have "map_tex (material (backMesh (children (buildStack_cascade ?st (mounted True)) ! 0))) = None \<and>
      faceRotation (frontMesh (children (buildStack_cascade ?st (mounted True)) ! 0)) =
        (if truthy (frontUrl ?st (int 0)) then Some 0 else None)"
    using l by (metis zero_less_one)
  then have z: "map_tex (material (backMesh (children (buildStack_cascade ?st (mounted True)) ! 0))) = None"
      "faceRotation (frontMesh (children (buildStack_cascade ?st (mounted True)) ! 0)) = Some 0"
    using f by simp_all
  show ?thesis
    by (intro conjI d r l eq z)
qed


end
